theory Spec2Isabelle
  imports Main
begin

section \<open>Python strings\<close>

text \<open>
  A Python \<open>str\<close> is modelled as a \<open>string\<close>: one \<open>char\<close> per code point, for the code
  points 0 to 255. \<open>isspace\<close> is Python's notion of a whitespace character on that range
  (the characters that \<open>str.strip()\<close> removes and that the pattern \<open>\s\<close> matches): tab, line
  feed, vertical tab, form feed, carriage return, the separators 0x1C to 0x1F, space, next
  line (0x85) and no-break space (0xA0).
\<close>

definition isspace :: "char \<Rightarrow> bool" where
  "isspace c = (c \<in> {CHR 0x09, CHR 0x0A, CHR 0x0B, CHR 0x0C, CHR 0x0D, CHR 0x1C, CHR 0x1D,
                      CHR 0x1E, CHR 0x1F, CHR 0x20, CHR 0x85, CHR 0xA0})"

text \<open>\<open>s.lstrip()\<close>, \<open>s.rstrip()\<close>, \<open>s.strip()\<close>.\<close>

definition lstrip :: "string \<Rightarrow> string" where
  "lstrip s = dropWhile isspace s"

definition rstrip :: "string \<Rightarrow> string" where
  "rstrip s = rev (dropWhile isspace (rev s))"

definition strip :: "string \<Rightarrow> string" where
  "strip s = rstrip (lstrip s)"

text \<open>\<open>s.lstrip(cs)\<close>, \<open>s.rstrip(cs)\<close>, \<open>s.strip(cs)\<close>: every leading (trailing) character that
  occurs in \<open>cs\<close> is removed.\<close>

definition lstrip_chars :: "string \<Rightarrow> string \<Rightarrow> string" where
  "lstrip_chars s cs = dropWhile (\<lambda>c. c \<in> set cs) s"

definition rstrip_chars :: "string \<Rightarrow> string \<Rightarrow> string" where
  "rstrip_chars s cs = rev (dropWhile (\<lambda>c. c \<in> set cs) (rev s))"

definition strip_chars :: "string \<Rightarrow> string \<Rightarrow> string" where
  "strip_chars s cs = rstrip_chars (lstrip_chars s cs) cs"

text \<open>\<open>s.startswith(p)\<close> and \<open>s.endswith(p)\<close>.\<close>

definition startswith :: "string \<Rightarrow> string \<Rightarrow> bool" where
  "startswith s p = (take (length p) s = p)"

definition endswith :: "string \<Rightarrow> string \<Rightarrow> bool" where
  "endswith s p = (length p \<le> length s \<and> drop (length s - length p) s = p)"

text \<open>The slice \<open>s[a:-b]\<close> for \<open>b > 0\<close>, and its special cases \<open>s[a:]\<close> (\<open>drop a s\<close>) and
  \<open>s[:-b]\<close>. Python clamps both ends to the string, as \<open>take\<close> and \<open>drop\<close> do.\<close>

definition slice :: "string \<Rightarrow> nat \<Rightarrow> nat \<Rightarrow> string" where
  "slice s a b = drop a (take (length s - b) s)"

text \<open>\<open>s.split(sep)\<close> for a one-character separator: the result is never empty.\<close>

fun split :: "string \<Rightarrow> char \<Rightarrow> string list" where
  "split [] sep = [[]]"
| "split (c # cs) sep =
     (if c = sep then [] # split cs sep
      else (case split cs sep of [] \<Rightarrow> [[c]] | w # ws \<Rightarrow> (c # w) # ws))"

text \<open>\<open>sep.join(xs)\<close>.\<close>

fun join :: "string \<Rightarrow> string list \<Rightarrow> string" where
  "join sep [] = []"
| "join sep [x] = x"
| "join sep (x # y # ys) = x @ sep @ join sep (y # ys)"

text \<open>\<open>re.sub(r"\s+", " ", s)\<close>: scanning from the left, every maximal run of whitespace
  characters is replaced by one space.\<close>

function re_sub_ws :: "string \<Rightarrow> string" where
  "re_sub_ws [] = []"
| "re_sub_ws (c # cs) =
     (if isspace c then CHR '' '' # re_sub_ws (dropWhile isspace cs) else c # re_sub_ws cs)"
  by pat_completeness auto
termination
  by (relation "measure length") (auto simp: less_Suc_eq_le length_dropWhile_le)

abbreviation newline :: char where
  "newline \<equiv> CHR 0x0A"

definition dquote :: string where
  "dquote = [CHR 0x22]"

definition dquote3 :: string where
  "dquote3 = [CHR 0x22, CHR 0x22, CHR 0x22]"

section \<open>skeleton.py: the skeleton model and its serializer\<close>

definition compact_params :: "string \<Rightarrow> string" where
  "compact_params params = strip_chars (strip (re_sub_ws params)) '',''"

text \<open>The three dataclasses. Field names carry a prefix, since two records of one theory
  cannot share a field name (and \<open>imports\<close> is a keyword): \<open>fn_\<close> for FunctionSig,
  \<open>cls_\<close> for ClassSkeleton, \<open>sk_\<close> for CodeSkeleton.\<close>

record FunctionSig =
  fn_name :: string
  fn_params :: string
  fn_return_type :: string
  fn_docstring :: string

record ClassSkeleton =
  cls_name :: string
  cls_bases :: "string list"
  cls_docstring :: string
  cls_methods :: "FunctionSig list"

record CodeSkeleton =
  sk_file_name :: string
  sk_language :: string
  sk_module_doc :: string
  sk_imports :: "string list"
  sk_classes :: "ClassSkeleton list"
  sk_functions :: "FunctionSig list"

text \<open>The inner function \<open>_doc(raw, indent)\<close> of \<open>to_text\<close>; \<open>verbose\<close> is the variable it
  closes over.\<close>

definition doc :: "bool \<Rightarrow> string \<Rightarrow> string \<Rightarrow> string list" where
  "doc verbose raw indent =
     (if raw = [] then []
      else let first = strip (hd (split raw newline)) in
        if \<not> verbose then [indent @ dquote3 @ first @ dquote3]
        else let doc_lines = split (strip raw) newline in
          if length doc_lines = 1 then [indent @ dquote3 @ first @ dquote3]
          else [indent @ dquote3 @ hd doc_lines]
               @ map (\<lambda>l. indent @ strip l) (tl doc_lines)
               @ [indent @ dquote3])"

text \<open>The body of the loop over \<open>cls.methods\<close>, and of the loop over \<open>self.functions\<close>: each
  takes the list \<open>lines\<close> and returns it extended.\<close>

definition method_lines :: "bool \<Rightarrow> FunctionSig \<Rightarrow> string list \<Rightarrow> string list" where
  "method_lines verbose method lines =
     (let ret = (if fn_return_type method \<noteq> [] then '' -> '' @ fn_return_type method else []);
          params = compact_params (fn_params method);
          lines = lines @ [''  + '' @ fn_name method @ ''('' @ params @ '')'' @ ret]
      in lines @ doc verbose (fn_docstring method) ''    '')"

definition function_lines :: "bool \<Rightarrow> FunctionSig \<Rightarrow> string list \<Rightarrow> string list" where
  "function_lines verbose fn lines =
     (let ret = (if fn_return_type fn \<noteq> [] then '' -> '' @ fn_return_type fn else []);
          params = compact_params (fn_params fn);
          lines = lines @ [''def '' @ fn_name fn @ ''('' @ params @ '')'' @ ret]
      in lines @ doc verbose (fn_docstring fn) ''  '')"

text \<open>The body of the loop over \<open>self.classes\<close>.\<close>

definition class_lines :: "bool \<Rightarrow> ClassSkeleton \<Rightarrow> string list \<Rightarrow> string list" where
  "class_lines verbose cls lines =
     (let bases_str = (if cls_bases cls \<noteq> [] then ''('' @ join '', '' (cls_bases cls) @ '')''
                       else []);
          lines = lines @ [''class '' @ cls_name cls @ bases_str];
          lines = lines @ doc verbose (cls_docstring cls) ''  '';
          lines = fold (method_lines verbose) (cls_methods cls) lines
      in lines @ [[]])"

text \<open>The list \<open>lines\<close> that \<open>to_text\<close> builds, and \<open>to_text\<close> itself.\<close>

definition to_text_lines :: "CodeSkeleton \<Rightarrow> bool \<Rightarrow> string list" where
  "to_text_lines self verbose =
     (let lines = [''# '' @ sk_file_name self @ '' ['' @ sk_language self @ '']''];
          lines = (if sk_module_doc self \<noteq> []
                   then lines @ [''module: '' @ dquote @ strip (hd (split (sk_module_doc self) newline))
                                 @ dquote]
                   else lines);
          lines = (if sk_imports self \<noteq> []
                   then lines @ [''imports: '' @ join '', '' (sk_imports self)]
                   else lines);
          lines = lines @ [[]];
          lines = fold (class_lines verbose) (sk_classes self) lines
      in fold (function_lines verbose) (sk_functions self) lines)"

definition to_text :: "CodeSkeleton \<Rightarrow> bool \<Rightarrow> string" where
  "to_text self verbose = strip (join [newline] (to_text_lines self verbose))"

text \<open>\<open>s.split()\<close> without a separator: the maximal runs of non-whitespace characters.\<close>

function split_ws :: "string \<Rightarrow> string list" where
  "split_ws s =
     (if dropWhile isspace s = [] then []
      else takeWhile (\<lambda>c. \<not> isspace c) (dropWhile isspace s)
           # split_ws (dropWhile (\<lambda>c. \<not> isspace c) (dropWhile isspace s)))"
  by pat_completeness auto
termination
proof (relation "measure length")
  show "wf (measure length)" by simp
next
  fix s :: string
  assume a: "dropWhile isspace s \<noteq> []"
  let ?t = "dropWhile isspace s"
  obtain c cs where t: "?t = c # cs" using a by (cases ?t) auto
  have "\<not> isspace c" using hd_dropWhile [OF a] t by simp
  then have "length (dropWhile (\<lambda>c. \<not> isspace c) ?t) \<le> length cs"
    by (simp add: t length_dropWhile_le)
  moreover have "length ?t \<le> length s" by (rule length_dropWhile_le)
  ultimately show "(dropWhile (\<lambda>c. \<not> isspace c) ?t, s) \<in> measure length"
    by (simp add: t)
qed

declare split_ws.simps [simp del]

text \<open>Parameter compaction as the specification words it, for comparison with
  \<open>compact_params\<close>: every run of whitespace becomes one space, one trailing comma is
  removed, and nothing else changes.\<close>

definition spec_compact_params :: "string \<Rightarrow> string" where
  "spec_compact_params params =
     (let s = re_sub_ws params in if endswith s '','' then take (length s - 1) s else s)"

section \<open>The concrete syntax tree\<close>

text \<open>
  A node of the tree that the grammar parser returns: its \<open>type\<close>, its source text and its
  \<open>children\<close> in source order. \<open>node_text n\<close> is \<open>_node_text(n, content_bytes)\<close>, the decoded
  slice of the source between the node's byte offsets; the parser fixes it, so the model
  takes it with the node. An adapter's \<open>extract\<close> is modelled from the root node on: parsing
  the content is the parser's part.
\<close>

datatype node = Node (ntype: string) (node_text: string) (children: "node list")

text \<open>The text of a parameter list without its parentheses, as every adapter computes it:
  \<open>raw = text.strip(); if raw.startswith("(") and raw.endswith(")"): raw = raw[1:-1];
  raw.strip()\<close>.\<close>

definition strip_parens :: "string \<Rightarrow> string" where
  "strip_parens text =
     (let raw = strip text;
          raw = (if startswith raw ''('' \<and> endswith raw '')'' then slice raw 1 1 else raw)
      in strip raw)"

section \<open>languages/go.py\<close>

text \<open>\<open>_preceding_doc(siblings, idx, content_bytes)\<close>. The loop walks back from
  \<open>siblings[idx - 1]\<close> while it sees comments: \<open>go_doc_lines\<close> takes the siblings before
  \<open>idx\<close>, the nearest first, and the list \<open>lines\<close>.\<close>

fun go_doc_lines :: "node list \<Rightarrow> string list \<Rightarrow> string list" where
  "go_doc_lines [] lines = lines"
| "go_doc_lines (n # earlier) lines =
     (if ntype n = ''comment''
      then let raw = strip (node_text n);
               raw = (if startswith raw ''//'' then strip (drop 2 raw) else raw)
           in go_doc_lines earlier (raw # lines)
      else lines)"

definition go_preceding_doc :: "node list \<Rightarrow> nat \<Rightarrow> string" where
  "go_preceding_doc siblings idx =
     strip (join [newline] (go_doc_lines (rev (take idx siblings)) []))"

text \<open>\<open>_extract_function\<close>: the body of the loop over \<open>node.children\<close>, on the variables
  \<open>(name, params, return_type, param_list_count)\<close>.\<close>

definition go_function_child ::
  "bool \<Rightarrow> node \<Rightarrow> string \<times> string \<times> string \<times> nat \<Rightarrow> string \<times> string \<times> string \<times> nat" where
  "go_function_child is_method child st =
     (case st of (name, params, return_type, param_list_count) \<Rightarrow>
        if ntype child = ''identifier'' \<and> name = []
        then (node_text child, params, return_type, param_list_count)
        else if ntype child = ''field_identifier'' \<and> name = []
        then (node_text child, params, return_type, param_list_count)
        else if ntype child = ''parameter_list''
        then (let param_list_count = param_list_count + 1 in
              if is_method \<and> param_list_count = 1
              then (name, params, return_type, param_list_count)
              else if params = []
              then (name, strip_parens (node_text child), return_type, param_list_count)
              else (name, params, return_type, param_list_count))
        else if ntype child = ''type_identifier''
        then (name, params, node_text child, param_list_count)
        else st)"

definition go_extract_function :: "node \<Rightarrow> string \<Rightarrow> FunctionSig" where
  "go_extract_function node docstring =
     (let is_method = (ntype node = ''method_declaration'') in
      case fold (go_function_child is_method) (children node) ([], [], [], 0) of
        (name, params, return_type, param_list_count) \<Rightarrow>
          \<lparr>fn_name = name, fn_params = params, fn_return_type = return_type,
           fn_docstring = docstring\<rparr>)"

text \<open>\<open>_extract_struct\<close>: the name is the text of the first \<open>type_identifier\<close> child (the
  loop breaks there).\<close>

definition go_extract_struct :: "node \<Rightarrow> string \<Rightarrow> ClassSkeleton" where
  "go_extract_struct node docstring =
     (let name = (case find (\<lambda>child. ntype child = ''type_identifier'') (children node) of
                    Some child \<Rightarrow> node_text child
                  | None \<Rightarrow> [])
      in \<lparr>cls_name = name, cls_bases = [], cls_docstring = docstring, cls_methods = []\<rparr>)"

text \<open>\<open>GoExtractor.extract\<close>. The loops over the children of an \<open>import_spec\<close> and of an
  import declaration append to \<open>imports\<close>; the loop over the children of a type declaration
  appends to \<open>classes\<close> (its inner loop stops at the first struct or interface type).\<close>

definition go_import_spec :: "node \<Rightarrow> string list \<Rightarrow> string list" where
  "go_import_spec spec imports =
     fold (\<lambda>s imports.
             if ntype s = ''interpreted_string_literal''
             then imports @ [strip_chars (strip (node_text s)) dquote]
             else imports)
          (children spec) imports"

definition go_import_child :: "node \<Rightarrow> string list \<Rightarrow> string list" where
  "go_import_child sub imports =
     (if ntype sub = ''import_spec'' then go_import_spec sub imports
      else if ntype sub = ''import_spec_list''
      then fold (\<lambda>s2 imports. if ntype s2 = ''import_spec'' then go_import_spec s2 imports
                               else imports)
                (children sub) imports
      else imports)"

definition go_type_child ::
  "node list \<Rightarrow> nat \<Rightarrow> node \<Rightarrow> ClassSkeleton list \<Rightarrow> ClassSkeleton list" where
  "go_type_child siblings idx sub classes =
     (if ntype sub = ''type_spec''
         \<and> list_ex (\<lambda>s2. ntype s2 \<in> {''struct_type'', ''interface_type''}) (children sub)
      then classes @ [go_extract_struct sub (go_preceding_doc siblings idx)]
      else classes)"

text \<open>The body of the loop over \<open>enumerate(siblings)\<close>, on the three lists
  \<open>(imports, classes, functions)\<close>.\<close>

definition go_sibling ::
  "node list \<Rightarrow> nat \<times> node
     \<Rightarrow> string list \<times> ClassSkeleton list \<times> FunctionSig list
     \<Rightarrow> string list \<times> ClassSkeleton list \<times> FunctionSig list" where
  "go_sibling siblings p st =
     (case (p, st) of ((idx, child), (imports, classes, functions)) \<Rightarrow>
        if ntype child = ''import_declaration''
        then (fold go_import_child (children child) imports, classes, functions)
        else if ntype child \<in> {''function_declaration'', ''method_declaration''}
        then (imports, classes,
              functions @ [go_extract_function child (go_preceding_doc siblings idx)])
        else if ntype child = ''type_declaration''
        then (imports, fold (go_type_child siblings idx) (children child) classes, functions)
        else st)"

definition go_extract :: "string \<Rightarrow> node \<Rightarrow> CodeSkeleton" where
  "go_extract file_name root =
     (let siblings = children root in
      case fold (go_sibling siblings) (enumerate 0 siblings) ([], [], []) of
        (imports, classes, functions) \<Rightarrow>
          \<lparr>sk_file_name = file_name, sk_language = ''Go'', sk_module_doc = [],
           sk_imports = imports, sk_classes = classes, sk_functions = functions\<rparr>)"

section \<open>languages/rust.py\<close>

text \<open>\<open>s.replace(old, "")\<close>: every occurrence of \<open>old\<close>, found from the left, is removed (an
  empty \<open>old\<close> changes nothing).\<close>

function remove_all :: "string \<Rightarrow> string \<Rightarrow> string" where
  "remove_all [] old = []"
| "remove_all (c # cs) old =
     (if old \<noteq> [] \<and> startswith (c # cs) old
      then remove_all (drop (length old) (c # cs)) old
      else c # remove_all cs old)"
  by pat_completeness auto
termination
  by (relation "measure (\<lambda>(s, old). length s)") auto

text \<open>\<open>_preceding_doc\<close>: the loop walks back over line comments and stops at the first one
  without a \<open>doc_comment\<close> child. \<open>rust_doc_lines\<close> takes the siblings before \<open>idx\<close>, the
  nearest first.\<close>

fun rust_doc_lines :: "node list \<Rightarrow> string list \<Rightarrow> string list" where
  "rust_doc_lines [] lines = lines"
| "rust_doc_lines (n # earlier) lines =
     (if ntype n = ''line_comment''
      then (case find (\<lambda>c. ntype c = ''doc_comment'') (children n) of
              None \<Rightarrow> lines
            | Some doc_child \<Rightarrow> rust_doc_lines earlier (strip (node_text doc_child) # lines))
      else lines)"

definition rust_preceding_doc :: "node list \<Rightarrow> nat \<Rightarrow> string" where
  "rust_preceding_doc siblings idx =
     strip (join [newline] (rust_doc_lines (rev (take idx siblings)) []))"

text \<open>\<open>_extract_function\<close>: the loop body on \<open>(name, params, return_type)\<close>.\<close>

definition rust_function_child ::
  "node \<Rightarrow> string \<times> string \<times> string \<Rightarrow> string \<times> string \<times> string" where
  "rust_function_child child st =
     (case st of (name, params, return_type) \<Rightarrow>
        if ntype child = ''identifier'' \<and> name = [] then (node_text child, params, return_type)
        else if ntype child = ''parameters''
        then (name, strip_parens (node_text child), return_type)
        else if ntype child = ''type_identifier'' then (name, params, node_text child)
        else if ntype child = ''scoped_type_identifier'' then (name, params, node_text child)
        else if ntype child = ''generic_type'' then (name, params, node_text child)
        else st)"

definition rust_extract_function :: "node \<Rightarrow> string \<Rightarrow> FunctionSig" where
  "rust_extract_function node docstring =
     (case fold rust_function_child (children node) ([], [], []) of
        (name, params, return_type) \<Rightarrow>
          \<lparr>fn_name = name, fn_params = params, fn_return_type = return_type,
           fn_docstring = docstring\<rparr>)"

text \<open>\<open>_extract_struct_or_trait\<close>: the loop body on \<open>(name, bases)\<close>.\<close>

definition rust_struct_child :: "node \<Rightarrow> string \<times> string list \<Rightarrow> string \<times> string list" where
  "rust_struct_child child st =
     (case st of (name, bases) \<Rightarrow>
        if ntype child \<in> {''type_identifier'', ''identifier''} \<and> name = []
        then (node_text child, bases)
        else if ntype child = ''trait_bounds''
        then (name, fold (\<lambda>sub bases. if ntype sub = ''type_identifier''
                                        then bases @ [node_text sub] else bases)
                         (children child) bases)
        else st)"

definition rust_extract_struct_or_trait :: "node \<Rightarrow> string \<Rightarrow> ClassSkeleton" where
  "rust_extract_struct_or_trait node docstring =
     (case fold rust_struct_child (children node) ([], []) of
        (name, bases) \<Rightarrow>
          \<lparr>cls_name = name, cls_bases = bases, cls_docstring = docstring, cls_methods = []\<rparr>)"

text \<open>\<open>_extract_impl\<close>: the loop body on \<open>(name, methods)\<close>, and in it the loop over the
  children of a declaration list.\<close>

definition rust_impl_member ::
  "node list \<Rightarrow> nat \<times> node \<Rightarrow> FunctionSig list \<Rightarrow> FunctionSig list" where
  "rust_impl_member siblings p methods =
     (case p of (idx, sub) \<Rightarrow>
        if ntype sub = ''function_item''
        then methods @ [rust_extract_function sub (rust_preceding_doc siblings idx)]
        else methods)"

definition rust_impl_child ::
  "node \<Rightarrow> string \<times> FunctionSig list \<Rightarrow> string \<times> FunctionSig list" where
  "rust_impl_child child st =
     (case st of (name, methods) \<Rightarrow>
        if ntype child = ''type_identifier'' \<and> name = [] then (node_text child, methods)
        else if ntype child = ''declaration_list''
        then (let siblings = children child
              in (name, fold (rust_impl_member siblings) (enumerate 0 siblings) methods))
        else st)"

definition rust_extract_impl :: "node \<Rightarrow> ClassSkeleton" where
  "rust_extract_impl node =
     (case fold rust_impl_child (children node) ([], []) of
        (name, methods) \<Rightarrow>
          \<lparr>cls_name = ''impl '' @ name, cls_bases = [], cls_docstring = [],
           cls_methods = methods\<rparr>)"

text \<open>\<open>RustExtractor.extract\<close>: the body of the loop over \<open>enumerate(siblings)\<close>.\<close>

definition rust_sibling ::
  "node list \<Rightarrow> nat \<times> node
     \<Rightarrow> string list \<times> ClassSkeleton list \<times> FunctionSig list
     \<Rightarrow> string list \<times> ClassSkeleton list \<times> FunctionSig list" where
  "rust_sibling siblings p st =
     (case (p, st) of ((idx, child), (imports, classes, functions)) \<Rightarrow>
        if ntype child = ''use_declaration''
        then (imports @ [remove_all (rstrip_chars (strip (node_text child)) '';'') ''use ''],
              classes, functions)
        else if ntype child \<in> {''struct_item'', ''trait_item'', ''enum_item''}
        then (imports,
              classes @ [rust_extract_struct_or_trait child (rust_preceding_doc siblings idx)],
              functions)
        else if ntype child = ''impl_item''
        then (imports, classes @ [rust_extract_impl child], functions)
        else if ntype child = ''function_item''
        then (imports, classes,
              functions @ [rust_extract_function child (rust_preceding_doc siblings idx)])
        else st)"

definition rust_extract :: "string \<Rightarrow> node \<Rightarrow> CodeSkeleton" where
  "rust_extract file_name root =
     (let siblings = children root in
      case fold (rust_sibling siblings) (enumerate 0 siblings) ([], [], []) of
        (imports, classes, functions) \<Rightarrow>
          \<lparr>sk_file_name = file_name, sk_language = ''Rust'', sk_module_doc = [],
           sk_imports = imports, sk_classes = classes, sk_functions = functions\<rparr>)"

section \<open>languages/python.py\<close>

definition squote :: string where
  "squote = [CHR 0x27]"

definition squote3 :: string where
  "squote3 = [CHR 0x27, CHR 0x27, CHR 0x27]"

text \<open>The loop \<open>for q in ('"""', "'''", '"', "'")\<close> that removes the quotes of a string
  literal: the first \<open>q\<close> that \<open>raw\<close> starts and ends with (and is long enough for) is cut off
  at both ends; without one, \<open>raw\<close> stays.\<close>

definition py_unquote :: "string \<Rightarrow> string" where
  "py_unquote raw =
     (case find (\<lambda>q. startswith raw q \<and> endswith raw q \<and> 2 * length q \<le> length raw)
                [dquote3, squote3, dquote, squote] of
        Some q \<Rightarrow> strip (slice raw (length q) (length q))
      | None \<Rightarrow> raw)"

text \<open>\<open>_first_string_child\<close>: only the first \<open>expression_statement\<close> of the body is looked
  at, and in it the first string.\<close>

definition py_first_string_child :: "node option \<Rightarrow> string" where
  "py_first_string_child body_node =
     (case body_node of
        None \<Rightarrow> []
      | Some body \<Rightarrow>
          (case find (\<lambda>child. ntype child = ''expression_statement'') (children body) of
             None \<Rightarrow> []
           | Some child \<Rightarrow>
               (case find (\<lambda>sub. ntype sub \<in> {''string'', ''concatenated_string''})
                          (children child) of
                  None \<Rightarrow> []
                | Some sub \<Rightarrow> py_unquote (strip (node_text sub)))))"

text \<open>\<open>_extract_function\<close>: the loop body on \<open>(name, params, return_type, body_node)\<close>.\<close>

definition py_function_child ::
  "node \<Rightarrow> string \<times> string \<times> string \<times> node option
     \<Rightarrow> string \<times> string \<times> string \<times> node option" where
  "py_function_child child st =
     (case st of (name, params, return_type, body_node) \<Rightarrow>
        if ntype child = ''identifier'' then (node_text child, params, return_type, body_node)
        else if ntype child = ''parameters''
        then (name, strip_parens (node_text child), return_type, body_node)
        else if ntype child = ''type'' then (name, params, strip (node_text child), body_node)
        else if ntype child = ''block'' then (name, params, return_type, Some child)
        else st)"

definition py_extract_function :: "node \<Rightarrow> FunctionSig" where
  "py_extract_function node =
     (case fold py_function_child (children node) ([], [], [], None) of
        (name, params, return_type, body_node) \<Rightarrow>
          \<lparr>fn_name = name, fn_params = params, fn_return_type = return_type,
           fn_docstring = py_first_string_child body_node\<rparr>)"

text \<open>\<open>_extract_class\<close>: the loop body on \<open>(name, bases, body_node)\<close>, then the loop over
  the children of the body, which appends to \<open>methods\<close>.\<close>

definition py_class_child ::
  "node \<Rightarrow> string \<times> string list \<times> node option \<Rightarrow> string \<times> string list \<times> node option" where
  "py_class_child child st =
     (case st of (name, bases, body_node) \<Rightarrow>
        if ntype child = ''identifier'' then (node_text child, bases, body_node)
        else if ntype child = ''argument_list''
        then (name,
              fold (\<lambda>arg bases. if ntype arg \<notin> {'','', ''('', '')''}
                                 then bases @ [strip (node_text arg)] else bases)
                   (children child) bases,
              body_node)
        else if ntype child = ''block'' then (name, bases, Some child)
        else st)"

definition py_class_member :: "node \<Rightarrow> FunctionSig list \<Rightarrow> FunctionSig list" where
  "py_class_member child methods =
     (if ntype child = ''function_definition'' then methods @ [py_extract_function child]
      else if ntype child = ''decorated_definition''
      then fold (\<lambda>sub methods. if ntype sub = ''function_definition''
                                 then methods @ [py_extract_function sub] else methods)
                (children child) methods
      else methods)"

definition py_extract_class :: "node \<Rightarrow> ClassSkeleton" where
  "py_extract_class node =
     (case fold py_class_child (children node) ([], [], None) of
        (name, bases, body_node) \<Rightarrow>
          \<lparr>cls_name = name, cls_bases = bases,
           cls_docstring = py_first_string_child body_node,
           cls_methods = (case body_node of
                            None \<Rightarrow> []
                          | Some body \<Rightarrow> fold py_class_member (children body) [])\<rparr>)"

text \<open>\<open>_extract_imports\<close>. For \<open>import a, b\<close> the loop appends to \<open>results\<close>. For
  \<open>from m import a, b\<close> the loop works on \<open>(module, names)\<close> and returns at once at a
  wildcard; \<open>py_import_from\<close> is that loop with what follows it.\<close>

definition py_first_dotted_name :: "node \<Rightarrow> string list" where
  "py_first_dotted_name child =
     (case find (\<lambda>sub. ntype sub = ''dotted_name'') (children child) of
        Some sub \<Rightarrow> [node_text sub]
      | None \<Rightarrow> [])"

definition py_import_child :: "node \<Rightarrow> string list \<Rightarrow> string list" where
  "py_import_child child results =
     (if ntype child = ''dotted_name'' then results @ [node_text child]
      else if ntype child = ''aliased_import'' then results @ py_first_dotted_name child
      else results)"

fun py_import_from :: "node list \<Rightarrow> string \<Rightarrow> string list \<Rightarrow> string list" where
  "py_import_from [] module names =
     (if names \<noteq> [] then map (\<lambda>n. if module \<noteq> [] then module @ ''.'' @ n else n) names
      else if module \<noteq> [] then [module]
      else [])"
| "py_import_from (child # rest) module names =
     (if ntype child = ''dotted_name'' \<and> module = []
      then py_import_from rest (node_text child) names
      else if ntype child = ''import_prefix'' then py_import_from rest (node_text child) names
      else if ntype child = ''wildcard_import'' then [module @ ''.*'']
      else if ntype child = ''dotted_name'' \<and> module \<noteq> []
      then py_import_from rest module (names @ [node_text child])
      else if ntype child = ''aliased_import''
      then py_import_from rest module (names @ py_first_dotted_name child)
      else py_import_from rest module names)"

definition py_extract_imports :: "node \<Rightarrow> string list" where
  "py_extract_imports node =
     (if ntype node = ''import_statement'' then fold py_import_child (children node) []
      else if ntype node = ''import_from_statement'' then py_import_from (children node) [] []
      else [])"

text \<open>\<open>PythonExtractor.extract\<close>. The first loop finds the module docstring: it skips
  comments, and stops at the first other node; if that is an \<open>expression_statement\<close>, every
  string in it sets \<open>module_doc\<close> (the last one stays). The second loop appends to the three
  lists.\<close>

fun py_module_doc :: "node list \<Rightarrow> string" where
  "py_module_doc [] = []"
| "py_module_doc (child # rest) =
     (if ntype child = ''expression_statement''
      then fold (\<lambda>sub module_doc. if ntype sub \<in> {''string'', ''concatenated_string''}
                                   then py_unquote (strip (node_text sub)) else module_doc)
                (children child) []
      else if ntype child \<notin> {''comment'', ''newline''} then []
      else py_module_doc rest)"

definition py_sibling ::
  "node \<Rightarrow> string list \<times> ClassSkeleton list \<times> FunctionSig list
     \<Rightarrow> string list \<times> ClassSkeleton list \<times> FunctionSig list" where
  "py_sibling child st =
     (case st of (imports, classes, functions) \<Rightarrow>
        if ntype child \<in> {''import_statement'', ''import_from_statement''}
        then (imports @ py_extract_imports child, classes, functions)
        else if ntype child = ''class_definition''
        then (imports, classes @ [py_extract_class child], functions)
        else if ntype child = ''function_definition''
        then (imports, classes, functions @ [py_extract_function child])
        else if ntype child = ''decorated_definition''
        then (case find (\<lambda>sub. ntype sub \<in> {''class_definition'', ''function_definition''})
                        (children child) of
                None \<Rightarrow> st
              | Some sub \<Rightarrow>
                  if ntype sub = ''class_definition''
                  then (imports, classes @ [py_extract_class sub], functions)
                  else (imports, classes, functions @ [py_extract_function sub]))
        else st)"

definition py_extract :: "string \<Rightarrow> node \<Rightarrow> CodeSkeleton" where
  "py_extract file_name root =
     (case fold py_sibling (children root) ([], [], []) of
        (imports, classes, functions) \<Rightarrow>
          \<lparr>sk_file_name = file_name, sk_language = ''Python'',
           sk_module_doc = py_module_doc (children root),
           sk_imports = imports, sk_classes = classes, sk_functions = functions\<rparr>)"

section \<open>languages/js_ts.py\<close>

text \<open>\<open>_parse_jsdoc\<close>: the comment markers are cut off, every line is trimmed, loses its
  leading asterisks and is trimmed again, and the lines that are not empty are joined.\<close>

definition js_parse_jsdoc :: "string \<Rightarrow> string" where
  "js_parse_jsdoc text =
     (let raw = strip text;
          raw = (if startswith raw ''/**'' then drop 3 raw
                 else if startswith raw ''/*'' then drop 2 raw
                 else raw);
          raw = (if endswith raw ''*/'' then take (length raw - 2) raw else raw);
          lines = map (\<lambda>l. strip (lstrip_chars (strip l) ''*'')) (split raw newline)
      in strip (join [newline] (filter (\<lambda>l. l \<noteq> []) lines)))"

text \<open>\<open>_preceding_doc\<close>: only \<open>siblings[idx - 1]\<close> counts, the last of the siblings before
  \<open>idx\<close>.\<close>

definition js_preceding_doc :: "node list \<Rightarrow> nat \<Rightarrow> string" where
  "js_preceding_doc siblings idx =
     (case rev (take idx siblings) of
        [] \<Rightarrow> []
      | prev # earlier \<Rightarrow>
          if ntype prev = ''comment''
          then (let raw = strip (node_text prev) in
                if startswith raw ''/*'' then js_parse_jsdoc raw
                else if startswith raw ''//'' then strip (drop 2 raw)
                else [])
          else [])"

definition js_unquote :: "string \<Rightarrow> string" where
  "js_unquote raw =
     (case find (\<lambda>q. startswith raw q \<and> endswith raw q \<and> 2 * length q \<le> length raw)
                [dquote3, squote3, dquote, squote, ''`''] of
        Some q \<Rightarrow> strip (slice raw (length q) (length q))
      | None \<Rightarrow> raw)"

definition js_first_string_in_body :: "node option \<Rightarrow> string" where
  "js_first_string_in_body body_node =
     (case body_node of
        None \<Rightarrow> []
      | Some body \<Rightarrow>
          (case find (\<lambda>child. ntype child = ''expression_statement'') (children body) of
             None \<Rightarrow> []
           | Some child \<Rightarrow>
               (case find (\<lambda>sub. ntype sub = ''string'') (children child) of
                  None \<Rightarrow> []
                | Some sub \<Rightarrow> js_unquote (strip (node_text sub)))))"

definition js_extract_params :: "node \<Rightarrow> string" where
  "js_extract_params params_node = strip_parens (node_text params_node)"

text \<open>\<open>_extract_function\<close>: the loop body on \<open>(name, params, return_type, body_node)\<close>. (The
  parameter \<open>lang_name\<close> of the source is not used there.)\<close>

definition js_function_child ::
  "node \<Rightarrow> string \<times> string \<times> string \<times> node option
     \<Rightarrow> string \<times> string \<times> string \<times> node option" where
  "js_function_child child st =
     (case st of (name, params, return_type, body_node) \<Rightarrow>
        if ntype child = ''identifier'' \<and> name = []
        then (node_text child, params, return_type, body_node)
        else if ntype child = ''property_identifier'' \<and> name = []
        then (node_text child, params, return_type, body_node)
        else if ntype child \<in> {''formal_parameters'', ''call_signature''}
        then (name, js_extract_params child, return_type, body_node)
        else if ntype child = ''type_annotation''
        then (case find (\<lambda>sub. ntype sub \<noteq> '':'') (children child) of
                Some sub \<Rightarrow> (name, params, strip (node_text sub), body_node)
              | None \<Rightarrow> st)
        else if ntype child = ''statement_block'' then (name, params, return_type, Some child)
        else st)"

definition js_extract_function :: "node \<Rightarrow> string \<Rightarrow> FunctionSig" where
  "js_extract_function node docstring =
     (case fold js_function_child (children node) ([], [], [], None) of
        (name, params, return_type, body_node) \<Rightarrow>
          \<lparr>fn_name = name, fn_params = params, fn_return_type = return_type,
           fn_docstring = (if docstring = [] then js_first_string_in_body body_node
                           else docstring)\<rparr>)"

text \<open>\<open>_extract_class\<close>: the loop body on \<open>(name, bases, body_node)\<close>, then the loop over the
  children of the class body, which appends to \<open>methods\<close>. A field whose value is an arrow
  function is a method named after the field.\<close>

definition js_class_child ::
  "node \<Rightarrow> string \<times> string list \<times> node option \<Rightarrow> string \<times> string list \<times> node option" where
  "js_class_child child st =
     (case st of (name, bases, body_node) \<Rightarrow>
        if ntype child = ''identifier'' \<and> name = [] then (node_text child, bases, body_node)
        else if ntype child = ''type_identifier'' \<and> name = []
        then (node_text child, bases, body_node)
        else if ntype child = ''class_heritage''
        then (name,
              fold (\<lambda>sub bases.
                      if ntype sub = ''extends_clause''
                      then fold (\<lambda>s2 bases.
                                   if ntype s2 \<in> {''identifier'', ''type_identifier'',
                                                   ''member_expression''}
                                   then bases @ [node_text s2] else bases)
                                (children sub) bases
                      else bases)
                   (children child) bases,
              body_node)
        else if ntype child = ''class_body'' then (name, bases, Some child)
        else st)"

definition js_class_member ::
  "node list \<Rightarrow> nat \<times> node \<Rightarrow> FunctionSig list \<Rightarrow> FunctionSig list" where
  "js_class_member siblings p methods =
     (case p of (idx, child) \<Rightarrow>
        if ntype child = ''method_definition''
        then methods @ [js_extract_function child (js_preceding_doc siblings idx)]
        else if ntype child = ''public_field_definition''
        then (case find (\<lambda>sub. ntype sub = ''arrow_function'') (children child) of
                None \<Rightarrow> methods
              | Some sub \<Rightarrow>
                  (let fn = js_extract_function sub (js_preceding_doc siblings idx);
                       fn = (case find (\<lambda>s2. ntype s2 \<in> {''property_identifier'',
                                                            ''identifier''})
                                       (children child) of
                               Some s2 \<Rightarrow> fn\<lparr>fn_name := node_text s2\<rparr>
                             | None \<Rightarrow> fn)
                   in methods @ [fn]))
        else methods)"

definition js_extract_class :: "node \<Rightarrow> string \<Rightarrow> ClassSkeleton" where
  "js_extract_class node docstring =
     (case fold js_class_child (children node) ([], [], None) of
        (name, bases, body_node) \<Rightarrow>
          \<lparr>cls_name = name, cls_bases = bases,
           cls_docstring = (if docstring = [] then js_first_string_in_body body_node
                            else docstring),
           cls_methods = (case body_node of
                            None \<Rightarrow> []
                          | Some body \<Rightarrow>
                              fold (js_class_member (children body))
                                   (enumerate 0 (children body)) [])\<rparr>)"

text \<open>\<open>JsTsExtractor.extract\<close>. The loop works on \<open>(imports, _seen_imports, classes,
  functions)\<close>. \<open>js_declarator_child\<close> is the body of the loop over the children of a
  \<open>variable_declarator\<close>, on \<open>(fn_name, functions)\<close> (the local \<open>fn_name\<close> is called \<open>binding\<close>
  here, since \<open>fn_name\<close> is a field).\<close>

definition js_declarator_child ::
  "node list \<Rightarrow> nat \<Rightarrow> node \<Rightarrow> string \<times> FunctionSig list \<Rightarrow> string \<times> FunctionSig list" where
  "js_declarator_child siblings idx s2 st =
     (case st of (binding, functions) \<Rightarrow>
        if ntype s2 = ''identifier'' then (node_text s2, functions)
        else if ntype s2 = ''arrow_function''
        then (binding,
              functions @ [(js_extract_function s2 (js_preceding_doc siblings idx))
                             \<lparr>fn_name := binding\<rparr>])
        else st)"

definition js_lexical_child ::
  "node list \<Rightarrow> nat \<Rightarrow> node \<Rightarrow> FunctionSig list \<Rightarrow> FunctionSig list" where
  "js_lexical_child siblings idx sub functions =
     (if ntype sub = ''variable_declarator''
      then snd (fold (js_declarator_child siblings idx) (children sub) ([], functions))
      else functions)"

definition js_sibling ::
  "node list \<Rightarrow> nat \<times> node
     \<Rightarrow> string list \<times> string set \<times> ClassSkeleton list \<times> FunctionSig list
     \<Rightarrow> string list \<times> string set \<times> ClassSkeleton list \<times> FunctionSig list" where
  "js_sibling siblings p st =
     (case (p, st) of ((idx, child), (imports, seen_imports, classes, functions)) \<Rightarrow>
        if ntype child = ''import_statement''
        then (case find (\<lambda>sub. ntype sub = ''string'') (children child) of
                None \<Rightarrow> st
              | Some sub \<Rightarrow>
                  (let raw = strip_chars (strip (node_text sub)) (dquote @ squote) in
                   if raw \<notin> seen_imports
                   then (imports @ [raw], insert raw seen_imports, classes, functions)
                   else st))
        else if ntype child = ''class_declaration''
        then (imports, seen_imports,
              classes @ [js_extract_class child (js_preceding_doc siblings idx)], functions)
        else if ntype child \<in> {''function_declaration'', ''generator_function_declaration''}
        then (imports, seen_imports, classes,
              functions @ [js_extract_function child (js_preceding_doc siblings idx)])
        else if ntype child = ''export_statement''
        then (case find (\<lambda>sub. ntype sub \<in> {''class_declaration'', ''function_declaration'',
                                              ''generator_function_declaration''})
                        (children child) of
                None \<Rightarrow> st
              | Some sub \<Rightarrow>
                  if ntype sub = ''class_declaration''
                  then (imports, seen_imports,
                        classes @ [js_extract_class sub (js_preceding_doc siblings idx)],
                        functions)
                  else (imports, seen_imports, classes,
                        functions @ [js_extract_function sub (js_preceding_doc siblings idx)]))
        else if ntype child = ''lexical_declaration''
        then (imports, seen_imports, classes,
              fold (js_lexical_child siblings idx) (children child) functions)
        else st)"

text \<open>The constructor's \<open>lang\<close> is \<open>'javascript'\<close> or \<open>'typescript'\<close>; it fixes
  \<open>self._lang_name\<close>.\<close>

definition js_lang_name :: "string \<Rightarrow> string" where
  "js_lang_name lang = (if lang = ''javascript'' then ''JavaScript'' else ''TypeScript'')"

definition js_extract :: "string \<Rightarrow> string \<Rightarrow> node \<Rightarrow> CodeSkeleton" where
  "js_extract lang file_name root =
     (let siblings = children root in
      case fold (js_sibling siblings) (enumerate 0 siblings) ([], {}, [], []) of
        (imports, seen_imports, classes, functions) \<Rightarrow>
          \<lparr>sk_file_name = file_name, sk_language = js_lang_name lang, sk_module_doc = [],
           sk_imports = imports, sk_classes = classes, sk_functions = functions\<rparr>)"

section \<open>languages/java.py and languages/cpp.py\<close>

text \<open>\<open>_parse_block_comment\<close>, the same in both files.\<close>

definition parse_block_comment :: "string \<Rightarrow> string" where
  "parse_block_comment text =
     (let raw = strip text;
          raw = (if startswith raw ''/**'' then drop 3 raw
                 else if startswith raw ''/*'' then drop 2 raw
                 else raw);
          raw = (if endswith raw ''*/'' then take (length raw - 2) raw else raw);
          lines = map (\<lambda>l. strip (lstrip_chars (strip l) ''*'')) (split raw newline)
      in strip (join [newline] (filter (\<lambda>l. l \<noteq> []) lines)))"

text \<open>\<open>_preceding_doc\<close> of java.py: only \<open>siblings[idx - 1]\<close> counts, and only a block
  comment.\<close>

definition java_preceding_doc :: "node list \<Rightarrow> nat \<Rightarrow> string" where
  "java_preceding_doc siblings idx =
     (case rev (take idx siblings) of
        [] \<Rightarrow> []
      | prev # earlier \<Rightarrow>
          if ntype prev = ''block_comment'' then parse_block_comment (node_text prev) else [])"

text \<open>\<open>_extract_method\<close>: the loop body on \<open>(name, params, return_type)\<close>. An identifier seen
  before any return type is passed over.\<close>

definition java_method_child ::
  "node \<Rightarrow> string \<times> string \<times> string \<Rightarrow> string \<times> string \<times> string" where
  "java_method_child child st =
     (case st of (name, params, return_type) \<Rightarrow>
        if ntype child = ''identifier'' \<and> name = []
        then (if return_type \<noteq> [] then (node_text child, params, return_type) else st)
        else if ntype child \<in> {''type_identifier'', ''void_type'', ''integral_type'',
                                ''floating_point_type'', ''boolean_type'', ''array_type'',
                                ''generic_type''}
        then (if return_type = [] then (name, params, node_text child) else st)
        else if ntype child = ''formal_parameters''
        then (name, strip_parens (node_text child), return_type)
        else st)"

definition java_extract_method :: "node \<Rightarrow> string \<Rightarrow> FunctionSig" where
  "java_extract_method node docstring =
     (case fold java_method_child (children node) ([], [], []) of
        (name, params, return_type) \<Rightarrow>
          \<lparr>fn_name = name, fn_params = params, fn_return_type = return_type,
           fn_docstring = docstring\<rparr>)"

text \<open>\<open>_extract_class\<close> of java.py: the loop body on \<open>(name, bases, body_node)\<close>, then the
  loop over the children of the class body.\<close>

definition java_type_identifiers :: "node \<Rightarrow> string list \<Rightarrow> string list" where
  "java_type_identifiers node bases =
     fold (\<lambda>sub bases. if ntype sub = ''type_identifier'' then bases @ [node_text sub]
                        else bases)
          (children node) bases"

definition java_class_child ::
  "node \<Rightarrow> string \<times> string list \<times> node option \<Rightarrow> string \<times> string list \<times> node option" where
  "java_class_child child st =
     (case st of (name, bases, body_node) \<Rightarrow>
        if ntype child \<in> {''type_identifier'', ''identifier''} \<and> name = []
        then (node_text child, bases, body_node)
        else if ntype child = ''superclass''
        then (name, java_type_identifiers child bases, body_node)
        else if ntype child = ''super_interfaces''
        then (name,
              fold (\<lambda>sub bases. if ntype sub = ''type_list''
                                 then java_type_identifiers sub bases else bases)
                   (children child) bases,
              body_node)
        else if ntype child = ''class_body'' then (name, bases, Some child)
        else st)"

definition java_class_member ::
  "node list \<Rightarrow> nat \<times> node \<Rightarrow> FunctionSig list \<Rightarrow> FunctionSig list" where
  "java_class_member siblings p methods =
     (case p of (idx, child) \<Rightarrow>
        if ntype child \<in> {''method_declaration'', ''constructor_declaration''}
        then methods @ [java_extract_method child (java_preceding_doc siblings idx)]
        else methods)"

definition java_extract_class :: "node \<Rightarrow> string \<Rightarrow> ClassSkeleton" where
  "java_extract_class node docstring =
     (case fold java_class_child (children node) ([], [], None) of
        (name, bases, body_node) \<Rightarrow>
          \<lparr>cls_name = name, cls_bases = bases, cls_docstring = docstring,
           cls_methods = (case body_node of
                            None \<Rightarrow> []
                          | Some body \<Rightarrow>
                              fold (java_class_member (children body))
                                   (enumerate 0 (children body)) [])\<rparr>)"

text \<open>\<open>JavaExtractor.extract\<close>: the loop appends to \<open>imports\<close> and \<open>classes\<close>; the functions
  of the skeleton are always empty. The third list of the state stays empty.\<close>

definition java_sibling ::
  "node list \<Rightarrow> nat \<times> node
     \<Rightarrow> string list \<times> ClassSkeleton list \<times> FunctionSig list
     \<Rightarrow> string list \<times> ClassSkeleton list \<times> FunctionSig list" where
  "java_sibling siblings p st =
     (case (p, st) of ((idx, child), (imports, classes, functions)) \<Rightarrow>
        if ntype child = ''import_declaration''
        then (fold (\<lambda>sub imports.
                      if ntype sub = ''scoped_identifier'' then imports @ [node_text sub]
                      else if ntype sub = ''identifier'' then imports @ [node_text sub]
                      else imports)
                   (children child) imports,
              classes, functions)
        else if ntype child \<in> {''class_declaration'', ''interface_declaration'',
                                ''enum_declaration''}
        then (imports,
              classes @ [java_extract_class child (java_preceding_doc siblings idx)],
              functions)
        else st)"

definition java_extract :: "string \<Rightarrow> node \<Rightarrow> CodeSkeleton" where
  "java_extract file_name root =
     (let siblings = children root in
      case fold (java_sibling siblings) (enumerate 0 siblings) ([], [], []) of
        (imports, classes, functions) \<Rightarrow>
          \<lparr>sk_file_name = file_name, sk_language = ''Java'', sk_module_doc = [],
           sk_imports = imports, sk_classes = classes, sk_functions = []\<rparr>)"

text \<open>\<open>_preceding_doc\<close> of cpp.py: only \<open>siblings[idx - 1]\<close> counts, any comment.\<close>

definition cpp_preceding_doc :: "node list \<Rightarrow> nat \<Rightarrow> string" where
  "cpp_preceding_doc siblings idx =
     (case rev (take idx siblings) of
        [] \<Rightarrow> []
      | prev # earlier \<Rightarrow>
          if ntype prev = ''comment'' then parse_block_comment (node_text prev) else [])"

text \<open>\<open>_extract_function_declarator\<close> returns \<open>(name, params)\<close>; it calls itself on a nested
  \<open>function_declarator\<close>.\<close>

fun cpp_extract_function_declarator :: "node \<Rightarrow> string \<times> string" where
  "cpp_extract_function_declarator (Node t text cs) =
     fold (\<lambda>child st.
             case st of (name, params) \<Rightarrow>
               if ntype child \<in> {''identifier'', ''field_identifier''} \<and> name = []
               then (node_text child, params)
               else if ntype child = ''qualified_identifier'' \<and> name = []
               then (node_text child, params)
               else if ntype child = ''function_declarator''
               then (case cpp_extract_function_declarator child of
                       (n, p) \<Rightarrow> (if n \<noteq> [] then n else name, if p \<noteq> [] then p else params))
               else if ntype child = ''parameter_list''
               then (name, strip_parens (node_text child))
               else st)
          cs ([], [])"

text \<open>\<open>_extract_function\<close> of cpp.py: the loop body on \<open>(name, params, return_type)\<close>.\<close>

definition cpp_function_child ::
  "node \<Rightarrow> string \<times> string \<times> string \<Rightarrow> string \<times> string \<times> string" where
  "cpp_function_child child st =
     (case st of (name, params, return_type) \<Rightarrow>
        if ntype child = ''function_declarator''
        then (case cpp_extract_function_declarator child of (n, p) \<Rightarrow> (n, p, return_type))
        else if ntype child \<in> {''type_specifier'', ''primitive_type'', ''type_identifier'',
                                ''qualified_identifier'', ''auto''}
        then (if return_type = [] then (name, params, node_text child) else st)
        else if ntype child = ''pointer_declarator''
        then fold (\<lambda>sub st. case st of (name, params, return_type) \<Rightarrow>
                     if ntype sub = ''function_declarator''
                     then (case cpp_extract_function_declarator sub of
                             (n, p) \<Rightarrow> (n, p, return_type))
                     else st)
                  (children child) st
        else st)"

definition cpp_extract_function :: "node \<Rightarrow> string \<Rightarrow> FunctionSig" where
  "cpp_extract_function node docstring =
     (case fold cpp_function_child (children node) ([], [], []) of
        (name, params, return_type) \<Rightarrow>
          \<lparr>fn_name = name, fn_params = params, fn_return_type = return_type,
           fn_docstring = docstring\<rparr>)"

text \<open>\<open>_extract_class\<close> of cpp.py. \<open>cpp_member_declaration\<close> is the loop over the children of
  a declaration in the class body, on \<open>ret_type\<close>: it stops at the first
  \<open>function_declarator\<close> and returns \<open>(ret_type, fn_name, fn_params)\<close>.\<close>

fun cpp_member_declaration :: "node list \<Rightarrow> string \<Rightarrow> string \<times> string \<times> string" where
  "cpp_member_declaration [] ret_type = (ret_type, [], [])"
| "cpp_member_declaration (sub # rest) ret_type =
     (if ntype sub \<in> {''type_specifier'', ''primitive_type'', ''type_identifier'',
                       ''qualified_identifier''} \<and> ret_type = []
      then cpp_member_declaration rest (node_text sub)
      else if ntype sub = ''function_declarator''
      then (case cpp_extract_function_declarator sub of (n, p) \<Rightarrow> (ret_type, n, p))
      else cpp_member_declaration rest ret_type)"

definition cpp_class_child ::
  "node \<Rightarrow> string \<times> string list \<times> node option \<Rightarrow> string \<times> string list \<times> node option" where
  "cpp_class_child child st =
     (case st of (name, bases, body_node) \<Rightarrow>
        if ntype child = ''type_identifier'' \<and> name = [] then (node_text child, bases, body_node)
        else if ntype child = ''base_class_clause''
        then (name,
              fold (\<lambda>sub bases. if ntype sub = ''type_identifier''
                                 then bases @ [node_text sub] else bases)
                   (children child) bases,
              body_node)
        else if ntype child = ''field_declaration_list'' then (name, bases, Some child)
        else st)"

definition cpp_class_member ::
  "node list \<Rightarrow> nat \<times> node \<Rightarrow> FunctionSig list \<Rightarrow> FunctionSig list" where
  "cpp_class_member siblings p methods =
     (case p of (idx, child) \<Rightarrow>
        if ntype child = ''function_definition''
        then methods @ [cpp_extract_function child (cpp_preceding_doc siblings idx)]
        else if ntype child \<in> {''declaration'', ''field_declaration''}
        then (case cpp_member_declaration (children child) [] of
                (ret_type, name, params) \<Rightarrow>
                  if name \<noteq> []
                  then methods @ [\<lparr>fn_name = name, fn_params = params,
                                   fn_return_type = ret_type,
                                   fn_docstring = cpp_preceding_doc siblings idx\<rparr>]
                  else methods)
        else methods)"

definition cpp_extract_class :: "node \<Rightarrow> string \<Rightarrow> ClassSkeleton" where
  "cpp_extract_class node docstring =
     (case fold cpp_class_child (children node) ([], [], None) of
        (name, bases, body_node) \<Rightarrow>
          \<lparr>cls_name = name, cls_bases = bases, cls_docstring = docstring,
           cls_methods = (case body_node of
                            None \<Rightarrow> []
                          | Some body \<Rightarrow>
                              fold (cpp_class_member (children body))
                                   (enumerate 0 (children body)) [])\<rparr>)"

text \<open>\<open>CppExtractor.extract\<close>. \<open>cpp_namespace_member\<close> is the body of the loop over the
  children of a namespace's declaration list, on \<open>(classes, functions)\<close>; the main loop
  works on the three lists.\<close>

definition cpp_namespace_member ::
  "node list \<Rightarrow> nat \<times> node \<Rightarrow> ClassSkeleton list \<times> FunctionSig list
     \<Rightarrow> ClassSkeleton list \<times> FunctionSig list" where
  "cpp_namespace_member inner p st =
     (case (p, st) of ((i2, s2), (classes, functions)) \<Rightarrow>
        if ntype s2 \<in> {''class_specifier'', ''struct_specifier''}
        then (classes @ [cpp_extract_class s2 (cpp_preceding_doc inner i2)], functions)
        else if ntype s2 = ''function_definition''
        then (classes, functions @ [cpp_extract_function s2 (cpp_preceding_doc inner i2)])
        else st)"

definition cpp_namespace_child ::
  "node \<Rightarrow> ClassSkeleton list \<times> FunctionSig list \<Rightarrow> ClassSkeleton list \<times> FunctionSig list" where
  "cpp_namespace_child sub st =
     (if ntype sub = ''declaration_list''
      then (let inner = children sub
            in fold (cpp_namespace_member inner) (enumerate 0 inner) st)
      else st)"

definition cpp_sibling ::
  "node list \<Rightarrow> nat \<times> node
     \<Rightarrow> string list \<times> ClassSkeleton list \<times> FunctionSig list
     \<Rightarrow> string list \<times> ClassSkeleton list \<times> FunctionSig list" where
  "cpp_sibling siblings p st =
     (case (p, st) of ((idx, child), (imports, classes, functions)) \<Rightarrow>
        if ntype child = ''preproc_include''
        then (fold (\<lambda>sub imports.
                      if ntype sub \<in> {''string_literal'', ''system_lib_string''}
                      then imports @ [strip_chars (strip (node_text sub)) (dquote @ ''<>'')]
                      else imports)
                   (children child) imports,
              classes, functions)
        else if ntype child \<in> {''class_specifier'', ''struct_specifier''}
        then (imports,
              classes @ [cpp_extract_class child (cpp_preceding_doc siblings idx)],
              functions)
        else if ntype child = ''function_definition''
        then (imports, classes,
              functions @ [cpp_extract_function child (cpp_preceding_doc siblings idx)])
        else if ntype child = ''namespace_definition''
        then (case fold cpp_namespace_child (children child) (classes, functions) of
                (classes, functions) \<Rightarrow> (imports, classes, functions))
        else st)"

definition cpp_extract :: "string \<Rightarrow> node \<Rightarrow> CodeSkeleton" where
  "cpp_extract file_name root =
     (let siblings = children root in
      case fold (cpp_sibling siblings) (enumerate 0 siblings) ([], [], []) of
        (imports, classes, functions) \<Rightarrow>
          \<lparr>sk_file_name = file_name, sk_language = ''C/C++'', sk_module_doc = [],
           sk_imports = imports, sk_classes = classes, sk_functions = functions\<rparr>)"

section \<open>The registry and the facade\<close>

text \<open>
  \<open>extract_skeleton\<close> of \<open>__init__.py\<close> only calls
  \<open>get_extractor().extract_skeleton(file_name, content, verbose=verbose)\<close> of the module
  \<open>extractor\<close>, which is not among the sources. The registry and the facade are therefore
  modelled from the specification (sections 4.2, 4.5, 6 and 7); the adapters they dispatch
  to and the serializer are the ones modelled above from the sources.
\<close>

text \<open>Modelled from the spec: the language ids of the extension table of section 6
  (\<open>extractor.py\<close> is missing).\<close>

datatype language_id = Python | JavaScript | TypeScript | Java | Cpp | Rust | Go

text \<open>Modelled from the spec: the extension of a file name, taken here as the text from the
  last dot of the name on, and lower-casing of the letters A to Z, for the case-insensitive
  lookup in the extension table (\<open>extractor.py\<close> is missing).\<close>

definition file_extension :: "string \<Rightarrow> string" where
  "file_extension name =
     (if CHR ''.'' \<in> set name
      then CHR ''.'' # rev (takeWhile (\<lambda>c. c \<noteq> CHR ''.'') (rev name))
      else [])"

definition ascii_lower :: "char \<Rightarrow> char" where
  "ascii_lower c =
     (case map_of (zip ''ABCDEFGHIJKLMNOPQRSTUVWXYZ'' ''abcdefghijklmnopqrstuvwxyz'') c of
        Some d \<Rightarrow> d
      | None \<Rightarrow> c)"

text \<open>Modelled from the spec: the extension table of section 6, "reproduced verbatim,
  case-insensitive"; an extension outside the table gives the absence result
  (\<open>extractor.py\<close> is missing).\<close>

definition detect_language :: "string \<Rightarrow> language_id option" where
  "detect_language name =
     (let ext = map ascii_lower (file_extension name) in
      if ext = ''.py'' then Some Python
      else if ext \<in> {''.js'', ''.jsx'', ''.mjs''} then Some JavaScript
      else if ext \<in> {''.ts'', ''.tsx''} then Some TypeScript
      else if ext = ''.java'' then Some Java
      else if ext \<in> {''.c'', ''.h'', ''.cc'', ''.cpp'', ''.cxx'', ''.hpp''} then Some Cpp
      else if ext = ''.rs'' then Some Rust
      else if ext = ''.go'' then Some Go
      else None)"

text \<open>Modelled from the spec: the dispatch table from a language id to its adapter, "a
  closed set of tagged variants selected through a single dispatch table keyed by language
  id" (\<open>extractor.py\<close> is missing). The adapters themselves are the ones of the sources.\<close>

definition adapter_extract :: "language_id \<Rightarrow> string \<Rightarrow> node \<Rightarrow> CodeSkeleton" where
  "adapter_extract l file_name root =
     (case l of
        Python \<Rightarrow> py_extract file_name root
      | JavaScript \<Rightarrow> js_extract ''javascript'' file_name root
      | TypeScript \<Rightarrow> js_extract ''typescript'' file_name root
      | Java \<Rightarrow> java_extract file_name root
      | Cpp \<Rightarrow> cpp_extract file_name root
      | Rust \<Rightarrow> rust_extract file_name root
      | Go \<Rightarrow> go_extract file_name root)"

text \<open>Modelled from the spec: the facade of section 4.5, "dispatch, extract, serialize, and
  convert any failure into the absence signal" (\<open>extractor.py\<close> is missing). The grammar
  parsers are collaborators outside the core: \<open>grammars l\<close> is \<open>None\<close> when the grammar of
  \<open>l\<close> failed to load (the adapter is unavailable); otherwise it is the parser, which
  returns the root of the tree, or \<open>None\<close> when it cannot produce any tree and the adapter
  raises. The absence signal is \<open>None\<close>.\<close>

definition extract_skeleton ::
  "(language_id \<Rightarrow> (string \<Rightarrow> node option) option) \<Rightarrow> string \<Rightarrow> string \<Rightarrow> bool
     \<Rightarrow> string option" where
  "extract_skeleton grammars file_name content verbose =
     (case detect_language file_name of
        None \<Rightarrow> None
      | Some l \<Rightarrow>
          (case grammars l of
             None \<Rightarrow> None
           | Some parse \<Rightarrow>
               (case parse content of
                  None \<Rightarrow> None
                | Some root \<Rightarrow> Some (to_text (adapter_extract l file_name root) verbose))))"

text \<open>Grammars for the examples: the Go grammar failed to load, and the other parsers
  produce no tree for an empty content and a root without children otherwise.\<close>

definition sample_grammars :: "language_id \<Rightarrow> (string \<Rightarrow> node option) option" where
  "sample_grammars l =
     (if l = Go then None
      else Some (\<lambda>content. if content = [] then None else Some (Node ''root'' content [])))"

text \<open>The display name of a language: the \<open>language\<close> that its adapter writes into the
  skeleton.\<close>

definition display_name :: "language_id \<Rightarrow> string" where
  "display_name l =
     (case l of
        Python \<Rightarrow> ''Python''
      | JavaScript \<Rightarrow> ''JavaScript''
      | TypeScript \<Rightarrow> ''TypeScript''
      | Java \<Rightarrow> ''Java''
      | Cpp \<Rightarrow> ''C/C++''
      | Rust \<Rightarrow> ''Rust''
      | Go \<Rightarrow> ''Go'')"

section \<open>Loops that append to three lists\<close>

text \<open>Every adapter's main loop appends to the lists \<open>(imports, classes, functions)\<close>;
  \<open>append3\<close> appends three lists to three lists.\<close>

definition append3 ::
  "'a list \<times> 'b list \<times> 'c list \<Rightarrow> 'a list \<times> 'b list \<times> 'c list
     \<Rightarrow> 'a list \<times> 'b list \<times> 'c list" where
  "append3 s t = (fst s @ fst t, fst (snd s) @ fst (snd t), snd (snd s) @ snd (snd t))"

section \<open>Sample trees\<close>

text \<open>The tree of the Go file
  \<^verbatim>\<open>import "fmt"\<close>,
  \<^verbatim>\<open>// Server serves.\<close>,
  \<^verbatim>\<open>type Server struct{}\<close>,
  \<^verbatim>\<open>// Add does X.\<close>,
  \<^verbatim>\<open>func (s *Server) Add(a int, b int) int { return a + b }\<close>.\<close>

definition go_receiver_list :: node where
  "go_receiver_list =
     Node ''parameter_list'' ''(s *Server)''
       [Node ''('' ''('' [],
        Node ''parameter_declaration'' ''s *Server''
          [Node ''identifier'' ''s'' [],
           Node ''pointer_type'' ''*Server''
             [Node ''*'' ''*'' [], Node ''type_identifier'' ''Server'' []]],
        Node '')'' '')'' []]"

definition go_add_method :: node where
  "go_add_method =
     Node ''method_declaration'' ''func (s *Server) Add(a int, b int) int { return a + b }''
       [Node ''func'' ''func'' [],
        go_receiver_list,
        Node ''field_identifier'' ''Add'' [],
        Node ''parameter_list'' ''(a int, b int)''
          [Node ''('' ''('' [],
           Node ''parameter_declaration'' ''a int''
             [Node ''identifier'' ''a'' [], Node ''type_identifier'' ''int'' []],
           Node '','' '','' [],
           Node ''parameter_declaration'' ''b int''
             [Node ''identifier'' ''b'' [], Node ''type_identifier'' ''int'' []],
           Node '')'' '')'' []],
        Node ''type_identifier'' ''int'' [],
        Node ''block'' ''{ return a + b }'' []]"

definition go_server_file :: node where
  "go_server_file =
     Node ''source_file'' []
       [Node ''import_declaration'' (''import '' @ dquote @ ''fmt'' @ dquote)
          [Node ''import'' ''import'' [],
           Node ''import_spec'' (dquote @ ''fmt'' @ dquote)
             [Node ''interpreted_string_literal'' (dquote @ ''fmt'' @ dquote) []]],
        Node ''comment'' ''// Server serves.'' [],
        Node ''type_declaration'' ''type Server struct{}''
          [Node ''type'' ''type'' [],
           Node ''type_spec'' ''Server struct{}''
             [Node ''type_identifier'' ''Server'' [],
              Node ''struct_type'' ''struct{}''
                [Node ''struct'' ''struct'' [], Node ''field_declaration_list'' ''{}'' []]]],
        Node ''comment'' ''// Add does X.'' [],
        go_add_method]"

text \<open>The tree of the Go method \<^verbatim>\<open>func (s *Server) Close() (int, error) {}\<close>: its
  parameter list is empty and its result is a parenthesized list, which the grammar gives
  the node type \<open>parameter_list\<close> as well.\<close>

definition go_close_method :: node where
  "go_close_method =
     Node ''method_declaration'' ''func (s *Server) Close() (int, error) {}''
       [Node ''func'' ''func'' [],
        go_receiver_list,
        Node ''field_identifier'' ''Close'' [],
        Node ''parameter_list'' ''()'' [Node ''('' ''('' [], Node '')'' '')'' []],
        Node ''parameter_list'' ''(int, error)''
          [Node ''('' ''('' [],
           Node ''parameter_declaration'' ''int'' [Node ''type_identifier'' ''int'' []],
           Node '','' '','' [],
           Node ''parameter_declaration'' ''error'' [Node ''type_identifier'' ''error'' []],
           Node '')'' '')'' []],
        Node ''block'' ''{}'' [Node ''{'' ''{'' [], Node ''}'' ''}'' []]]"

text \<open>The trees of the Rust impl blocks
  \<^verbatim>\<open>impl Foo { /// Creates new\<close> (line break) \<^verbatim>\<open>fn new() -> Self { Foo } }\<close> and
  \<^verbatim>\<open>impl Display for Foo { fn show(&self) {} }\<close>. In the second the trait comes first:
  the grammar gives the children \<open>impl\<close>, the trait, \<open>for\<close>, the type, the body.\<close>

definition rust_impl_foo :: node where
  "rust_impl_foo =
     Node ''impl_item'' ''impl Foo { /// Creates new\<newline> fn new() -> Self { Foo } }''
       [Node ''impl'' ''impl'' [],
        Node ''type_identifier'' ''Foo'' [],
        Node ''declaration_list'' ''{ /// Creates new\<newline> fn new() -> Self { Foo } }''
          [Node ''{'' ''{'' [],
           Node ''line_comment'' ''/// Creates new\<newline>''
             [Node ''//'' ''//'' [],
              Node ''outer_doc_comment_marker'' ''/'' [],
              Node ''doc_comment'' '' Creates new\<newline>'' []],
           Node ''function_item'' ''fn new() -> Self { Foo }''
             [Node ''fn'' ''fn'' [],
              Node ''identifier'' ''new'' [],
              Node ''parameters'' ''()'' [Node ''('' ''('' [], Node '')'' '')'' []],
              Node ''->'' ''->'' [],
              Node ''type_identifier'' ''Self'' [],
              Node ''block'' ''{ Foo }'' []],
           Node ''}'' ''}'' []]]"

definition rust_impl_display_for_foo :: node where
  "rust_impl_display_for_foo =
     Node ''impl_item'' ''impl Display for Foo { fn show(&self) {} }''
       [Node ''impl'' ''impl'' [],
        Node ''type_identifier'' ''Display'' [],
        Node ''for'' ''for'' [],
        Node ''type_identifier'' ''Foo'' [],
        Node ''declaration_list'' ''{ fn show(&self) {} }''
          [Node ''{'' ''{'' [],
           Node ''function_item'' ''fn show(&self) {}''
             [Node ''fn'' ''fn'' [],
              Node ''identifier'' ''show'' [],
              Node ''parameters'' ''(&self)''
                [Node ''('' ''('' [], Node ''self_parameter'' ''&self'' [], Node '')'' '')'' []],
              Node ''block'' ''{}'' []],
           Node ''}'' ''}'' []]]"

text \<open>The trees of the Python file \<^verbatim>\<open>import os\<close>, \<^verbatim>\<open>import os\<close> and of the JavaScript file
  \<^verbatim>\<open>import a from "m";\<close>, \<^verbatim>\<open>import b from "m";\<close>.\<close>

definition py_import_os_twice :: node where
  "py_import_os_twice =
     Node ''module'' ''import os\<newline>import os\<newline>''
       [Node ''import_statement'' ''import os''
          [Node ''import'' ''import'' [],
           Node ''dotted_name'' ''os'' [Node ''identifier'' ''os'' []]],
        Node ''import_statement'' ''import os''
          [Node ''import'' ''import'' [],
           Node ''dotted_name'' ''os'' [Node ''identifier'' ''os'' []]]]"

definition js_import_m_twice :: node where
  "js_import_m_twice =
     Node ''program'' []
       [Node ''import_statement'' (''import a from '' @ dquote @ ''m'' @ dquote @ '';'')
          [Node ''import'' ''import'' [],
           Node ''import_clause'' ''a'' [Node ''identifier'' ''a'' []],
           Node ''from'' ''from'' [],
           Node ''string'' (dquote @ ''m'' @ dquote) [],
           Node '';'' '';'' []],
        Node ''import_statement'' (''import b from '' @ dquote @ ''m'' @ dquote @ '';'')
          [Node ''import'' ''import'' [],
           Node ''import_clause'' ''b'' [Node ''identifier'' ''b'' []],
           Node ''from'' ''from'' [],
           Node ''string'' (dquote @ ''m'' @ dquote) [],
           Node '';'' '';'' []]]"

section \<open>Lists in source order\<close>


section \<open>Sample skeletons\<close>

text \<open>A skeleton with a class, a method and a function whose docstrings have two lines each,
  and a skeleton with a function whose docstring starts with an empty line.\<close>

definition docstring_sample :: CodeSkeleton where
  "docstring_sample =
     \<lparr>sk_file_name = ''a.py'', sk_language = ''Python'', sk_module_doc = [], sk_imports = [],
      sk_classes = [\<lparr>cls_name = ''A'', cls_bases = [], cls_docstring = ''A class.\<newline>  Really.'',
                     cls_methods = [\<lparr>fn_name = ''m'', fn_params = ''self'', fn_return_type = [],
                                     fn_docstring = ''Does Y.\<newline>  Again.''\<rparr>]\<rparr>],
      sk_functions = [\<lparr>fn_name = ''g'', fn_params = [], fn_return_type = [],
                       fn_docstring = ''Does X.\<newline>  More.''\<rparr>]\<rparr>"


section \<open>Facts about the string operations\<close>

lemma split_not_Nil: "split s sep \<noteq> []"
  by (induction s) (auto split: list.splits)

lemma split_no_sep: "w \<in> set (split s sep) \<Longrightarrow> sep \<notin> set w"
proof (induction s arbitrary: w)
  case Nil
  then show ?case by simp
next
  case (Cons c cs)
  then show ?case
    by (cases "split cs sep") (auto simp: split_not_Nil split: if_splits)
qed

lemma set_lstrip: "set (lstrip s) \<subseteq> set s"
  unfolding lstrip_def by (meson set_dropWhileD subsetI)

lemma set_rstrip: "set (rstrip s) \<subseteq> set s"
  unfolding rstrip_def using set_dropWhileD by fastforce

lemma set_strip: "set (strip s) \<subseteq> set s"
  unfolding strip_def using set_lstrip set_rstrip by blast

section \<open>The serializer's docstring rendering\<close>

text \<open>What \<open>_doc\<close> returns in compact mode, and in verbose mode for a docstring whose
  trimmed text spans several lines and for a docstring that is stored trimmed (as every
  adapter stores it).\<close>

lemma doc_compact:
  "doc False raw indent
     = (if raw = [] then [] else [indent @ dquote3 @ strip (hd (split raw newline)) @ dquote3])"
  by (simp add: doc_def)

lemma first_line_no_line_feed: "newline \<notin> set (strip (hd (split raw newline)))"
proof -
  have "hd (split raw newline) \<in> set (split raw newline)"
    by (simp add: split_not_Nil)
  then have "newline \<notin> set (hd (split raw newline))"
    by (rule split_no_sep)
  then show ?thesis using set_strip by blast
qed

lemma doc_verbose_several_lines:
  "1 < length (split (strip raw) newline) \<Longrightarrow>
     doc True raw indent =
       (indent @ dquote3 @ hd (split (strip raw) newline))
       # map (\<lambda>l. indent @ strip l) (tl (split (strip raw) newline))
       @ [indent @ dquote3]
     \<and> length (doc True raw indent) = Suc (length (split (strip raw) newline))"
proof -
  assume a: "1 < length (split (strip raw) newline)"
  have "raw \<noteq> []"
  proof
    assume "raw = []"
    with a show False by (simp add: strip_def lstrip_def rstrip_def)
  qed
  with a show ?thesis by (simp add: doc_def Let_def)
qed

lemma split_one_line: "sep \<notin> set s \<Longrightarrow> split s sep = [s]"
  by (induction s) (auto split: list.splits)

lemma split_one_line_iff: "length (split s sep) = Suc 0 \<longleftrightarrow> sep \<notin> set s"
proof
  assume "length (split s sep) = Suc 0"
  then show "sep \<notin> set s"
  proof (induction s)
    case Nil
    then show ?case by simp
  next
    case (Cons c s)
    then show ?case using split_not_Nil [of s sep] by (auto split: if_splits list.splits)
  qed
next
  assume "sep \<notin> set s"
  then show "length (split s sep) = Suc 0" by (simp add: split_one_line)
qed

lemma doc_verbose_trimmed:
  "raw \<noteq> [] \<Longrightarrow> strip raw = raw \<Longrightarrow>
     doc True raw indent =
       (if newline \<notin> set raw then [indent @ dquote3 @ raw @ dquote3]
        else (indent @ dquote3 @ hd (split raw newline))
             # map (\<lambda>l. indent @ strip l) (tl (split raw newline))
             @ [indent @ dquote3])"
  by (simp add: doc_def Let_def split_one_line_iff split_one_line)

section \<open>Parameter compaction\<close>

lemma re_sub_ws_nonws: "\<forall>c\<in>set w. \<not> isspace c \<Longrightarrow> re_sub_ws (w @ r) = w @ re_sub_ws r"
  by (induction w) auto

lemma rstrip_append: "rstrip ys \<noteq> [] \<Longrightarrow> rstrip (xs @ ys) = xs @ rstrip ys"
proof -
  assume "rstrip ys \<noteq> []"
  then have "dropWhile isspace (rev ys) \<noteq> []" by (simp add: rstrip_def)
  then obtain x where "x \<in> set (rev ys)" "\<not> isspace x"
    by (metis dropWhile_eq_Nil_conv)
  then have "dropWhile isspace (rev ys @ rev xs) = dropWhile isspace (rev ys) @ rev xs"
    by (rule dropWhile_append1)
  then show ?thesis by (simp add: rstrip_def)
qed

lemma rstrip_id: "xs \<noteq> [] \<Longrightarrow> \<not> isspace (last xs) \<Longrightarrow> rstrip xs = xs"
  by (cases xs rule: rev_cases) (auto simp: rstrip_def)

lemma split_ws_dropWhile: "split_ws (dropWhile isspace s) = split_ws s"
  by (subst split_ws.simps, subst (2) split_ws.simps) simp

lemma join_Cons: "ws \<noteq> [] \<Longrightarrow> join sep (w # ws) = w @ sep @ join sep ws"
  by (cases ws) auto

lemma rstrip_re_sub_ws:
  "t \<noteq> [] \<Longrightarrow> \<not> isspace (hd t) \<Longrightarrow>
     rstrip (re_sub_ws t) = join '' '' (split_ws t) \<and> split_ws t \<noteq> [] \<and> rstrip (re_sub_ws t) \<noteq> []"
proof (induction t rule: length_induct)
  case (1 t)
  let ?w = "takeWhile (\<lambda>c. \<not> isspace c) t"
  let ?r = "dropWhile (\<lambda>c. \<not> isspace c) t"
  have t: "t = ?w @ ?r" by simp
  have dt: "dropWhile isspace t = t" using 1(2,3) by (cases t) auto
  have w: "?w \<noteq> []" using 1(2,3) by (cases t) auto
  have wn: "\<forall>c\<in>set ?w. \<not> isspace c" by (auto dest: set_takeWhileD)
  then have lw: "\<not> isspace (last ?w)" using w last_in_set by blast
  have sw: "split_ws t = ?w # split_ws ?r"
    by (subst split_ws.simps) (simp add: dt 1(2))
  have rs: "re_sub_ws t = ?w @ re_sub_ws ?r"
    using re_sub_ws_nonws [OF wn, of ?r] by simp
  show ?case
  proof (cases "?r")
    case Nil
    then have "split_ws ?r = []" by (subst split_ws.simps) (simp del: dropWhile_eq_Nil_conv)
    moreover have "re_sub_ws ?r = []" using Nil by (simp del: dropWhile_eq_Nil_conv)
    ultimately show ?thesis using sw rs w lw by (simp add: rstrip_id del: dropWhile_eq_Nil_conv)
  next
    case (Cons c r')
    have c: "isspace c" using hd_dropWhile [of "\<lambda>c. \<not> isspace c" t] Cons by simp
    let ?u = "dropWhile isspace ?r"
    have u: "?u = dropWhile isspace r'" using Cons c by simp
    have rr: "re_sub_ws ?r = CHR '' '' # re_sub_ws ?u" using Cons c u by simp
    have su: "split_ws ?r = split_ws ?u" by (simp add: split_ws_dropWhile)
    show ?thesis
    proof (cases "?u = []")
      case True
      then have "split_ws ?u = []" by (subst split_ws.simps) (simp del: dropWhile_eq_Nil_conv)
      moreover have "rstrip (?w @ '' '') = ?w"
        using rstrip_id [OF w lw] by (simp add: rstrip_def isspace_def)
      moreover have "re_sub_ws ?u = []" using True by (simp del: dropWhile_eq_Nil_conv)
      ultimately show ?thesis using sw su rs rr w by (simp del: dropWhile_eq_Nil_conv)
    next
      case False
      have "length ?u < length t"
      proof -
        have "length ?u \<le> length ?r" by (rule length_dropWhile_le)
        moreover have "length ?r < length t"
          using w by (metis t length_append length_greater_0_conv less_add_same_cancel2)
        ultimately show ?thesis by simp
      qed
      moreover have "\<not> isspace (hd ?u)" using hd_dropWhile [OF False] .
      ultimately have ih: "rstrip (re_sub_ws ?u) = join '' '' (split_ws ?u)"
        "split_ws ?u \<noteq> []" "rstrip (re_sub_ws ?u) \<noteq> []"
        using 1(1) False by blast+
      have "rstrip (CHR '' '' # re_sub_ws ?u) = CHR '' '' # rstrip (re_sub_ws ?u)"
        using rstrip_append [OF ih(3), of "'' ''"] by simp
      then have "rstrip (re_sub_ws t) = ?w @ CHR '' '' # rstrip (re_sub_ws ?u)"
        using rstrip_append [of "CHR '' '' # re_sub_ws ?u" ?w] rs rr by simp
      then show ?thesis using ih sw su w by (simp add: join_Cons)
    qed
  qed
qed

lemma lstrip_re_sub_ws: "lstrip (re_sub_ws s) = re_sub_ws (dropWhile isspace s)"
proof (cases s)
  case Nil
  then show ?thesis by (simp add: lstrip_def)
next
  case (Cons c cs)
  show ?thesis
  proof (cases "isspace c")
    case True
    let ?u = "dropWhile isspace cs"
    have "dropWhile isspace (re_sub_ws ?u) = re_sub_ws ?u"
    proof (cases ?u)
      case Nil
      then show ?thesis by (simp del: dropWhile_eq_Nil_conv)
    next
      case (Cons d ds)
      then have "\<not> isspace d" using hd_dropWhile [of isspace cs] by simp
      with Cons show ?thesis by simp
    qed
    moreover have "isspace CHR '' ''" by (simp add: isspace_def)
    ultimately show ?thesis using True Cons by (simp add: lstrip_def)
  next
    case False
    with Cons show ?thesis by (simp add: lstrip_def)
  qed
qed

lemma strip_re_sub_ws: "strip (re_sub_ws s) = join '' '' (split_ws s)"
proof (cases "dropWhile isspace s = []")
  case True
  then have "split_ws s = []" by (subst split_ws.simps) simp
  with True show ?thesis by (simp add: strip_def lstrip_re_sub_ws rstrip_def del: dropWhile_eq_Nil_conv)
next
  case False
  then have "\<not> isspace (hd (dropWhile isspace s))" by (rule hd_dropWhile)
  with False have "rstrip (re_sub_ws (dropWhile isspace s)) = join '' '' (split_ws (dropWhile isspace s))"
    using rstrip_re_sub_ws by blast
  then show ?thesis by (simp add: strip_def lstrip_re_sub_ws split_ws_dropWhile)
qed

text \<open>
  C4 (as amended). Parameter compaction is \<open>" ".join(params.split()).strip(",")\<close>: the runs of
  non-whitespace characters of the raw text, joined by single spaces (so every run of
  whitespace inside becomes one space, and leading and trailing whitespace goes), with every
  leading and every trailing comma then removed. The raw text \<open>a,\<close> line feed, three spaces,
  \<open>b\<close> renders as \<open>a, b\<close>.
\<close>

theorem compact_params_split_join:
  "compact_params params = strip_chars (join '' '' (split_ws params)) '',''
   \<and> compact_params ''a,\<newline>   b'' = ''a, b''"
  by (simp add: compact_params_def strip_re_sub_ws [symmetric] strip_chars_def lstrip_chars_def
      rstrip_chars_def strip_def lstrip_def rstrip_def isspace_def)

text \<open>
  C4 as stated fails: a leading comma is removed as well, which collapsing whitespace and
  removing one trailing comma would keep.
\<close>

theorem compact_params_counterexample:
  "compact_params '',a'' = ''a'' \<and> spec_compact_params '',a'' = '',a''"
  by (simp add: compact_params_def spec_compact_params_def endswith_def strip_chars_def lstrip_chars_def
      rstrip_chars_def strip_def lstrip_def rstrip_def isspace_def)

section \<open>Facts about loops that append\<close>

lemmas str_defs = strip_def lstrip_def rstrip_def isspace_def startswith_def endswith_def
  slice_def strip_parens_def strip_chars_def lstrip_chars_def rstrip_chars_def dquote_def

lemma fold_appends:
  assumes "\<And>x acc. f x acc = acc @ f x []"
  shows "fold f xs acc = acc @ concat (map (\<lambda>x. f x []) xs)"
proof (induction xs arbitrary: acc)
  case Nil
  then show ?case by simp
next
  case (Cons x xs)
  have "fold f (x # xs) acc = fold f xs (f x acc)" by simp
  also have "\<dots> = f x acc @ concat (map (\<lambda>x. f x []) xs)" by (rule Cons.IH)
  also have "f x acc = acc @ f x []" by (rule assms)
  finally show ?case by simp
qed

lemma fold_appends3:
  assumes "\<And>x st. f x st = append3 st (f x ([], [], []))"
  shows "fold f xs st =
           (fst st @ concat (map (\<lambda>x. fst (f x ([], [], []))) xs),
            fst (snd st) @ concat (map (\<lambda>x. fst (snd (f x ([], [], [])))) xs),
            snd (snd st) @ concat (map (\<lambda>x. snd (snd (f x ([], [], [])))) xs))"
proof (induction xs arbitrary: st)
  case Nil
  then show ?case by simp
next
  case (Cons x xs)
  have "fold f (x # xs) st = fold f xs (f x st)" by simp
  also have "\<dots> = fold f xs (append3 st (f x ([], [], [])))"
    using assms [of x st] by simp
  finally show ?case by (simp add: Cons.IH append3_def)
qed

lemma fold_appends_acc:
  assumes "\<And>x acc. f x acc = acc @ f x []"
  shows "fold f xs acc = acc @ fold f xs []"
  using fold_appends [of f xs acc, OF assms] fold_appends [of f xs "[]", OF assms] by simp

section \<open>The Go adapter\<close>

lemma go_import_spec_appends: "go_import_spec spec imports = imports @ go_import_spec spec []"
  unfolding go_import_spec_def by (rule fold_appends_acc) simp

lemma go_import_child_appends: "go_import_child sub imports = imports @ go_import_child sub []"
proof -
  let ?f = "\<lambda>s2 imports. if ntype s2 = ''import_spec'' then go_import_spec s2 imports else imports"
  have f: "?f x acc = acc @ ?f x []" for x acc
    by (cases "ntype x = ''import_spec''") (simp_all add: go_import_spec_appends [of x acc])
  have "fold ?f (children sub) imports = imports @ fold ?f (children sub) []"
    by (rule fold_appends_acc) (rule f)
  then show ?thesis
    unfolding go_import_child_def
    by (simp add: go_import_spec_appends [of sub "imports"])
qed

lemma go_type_child_appends:
  "go_type_child siblings idx sub classes = classes @ go_type_child siblings idx sub []"
  by (simp add: go_type_child_def)

lemma go_sibling_appends: "go_sibling siblings p st = append3 st (go_sibling siblings p ([], [], []))"
proof -
  obtain idx child where p: "p = (idx, child)" by (cases p)
  obtain i c f where st: "st = (i, c, f)" by (cases st)
  have 1: "fold go_import_child (children child) i = i @ fold go_import_child (children child) []"
    by (rule fold_appends_acc) (rule go_import_child_appends)
  have 2: "fold (go_type_child siblings idx) (children child) c
             = c @ fold (go_type_child siblings idx) (children child) []"
    by (rule fold_appends_acc) (rule go_type_child_appends)
  show ?thesis
    unfolding p st go_sibling_def append3_def using 1 2 by simp
qed

lemma go_extract_lists:
  "sk_imports (go_extract file_name root)
     = concat (map (\<lambda>p. fst (go_sibling (children root) p ([], [], [])))
                   (enumerate 0 (children root)))"
  "sk_classes (go_extract file_name root)
     = concat (map (\<lambda>p. fst (snd (go_sibling (children root) p ([], [], []))))
                   (enumerate 0 (children root)))"
  "sk_functions (go_extract file_name root)
     = concat (map (\<lambda>p. snd (snd (go_sibling (children root) p ([], [], []))))
                   (enumerate 0 (children root)))"
  unfolding go_extract_def Let_def
  by (simp_all add: fold_appends3 [of "go_sibling (children root)", OF go_sibling_appends])

lemma go_type_child_classes:
  "c \<in> set (fold (go_type_child siblings idx) subs acc) \<Longrightarrow>
     c \<in> set acc \<or> (cls_bases c = [] \<and> cls_methods c = [])"
proof (induction subs arbitrary: acc)
  case Nil
  then show ?case by simp
next
  case (Cons sub subs)
  from Cons.prems have "c \<in> set (fold (go_type_child siblings idx) subs (go_type_child siblings idx sub acc))"
    by simp
  then have "c \<in> set (go_type_child siblings idx sub acc) \<or> (cls_bases c = [] \<and> cls_methods c = [])"
    by (rule Cons.IH)
  then show ?case
    by (auto simp: go_type_child_def go_extract_struct_def split: if_splits)
qed

lemma go_server_file_skeleton:
  "go_extract ''server.go'' go_server_file =
     \<lparr>sk_file_name = ''server.go'', sk_language = ''Go'', sk_module_doc = [],
      sk_imports = [''fmt''],
      sk_classes = [\<lparr>cls_name = ''Server'', cls_bases = [], cls_docstring = ''Server serves.'',
                     cls_methods = []\<rparr>],
      sk_functions = [\<lparr>fn_name = ''Add'', fn_params = ''a int, b int'', fn_return_type = ''int'',
                       fn_docstring = ''Add does X.''\<rparr>]\<rparr>"
  by (simp add: go_extract_def go_server_file_def go_add_method_def go_receiver_list_def
      go_sibling_def enumerate_eq_zip upt_rec go_import_child_def go_import_spec_def
      go_type_child_def go_extract_struct_def
      go_extract_function_def go_function_child_def go_preceding_doc_def str_defs)

text \<open>
  C10. Every ClassSkeleton that the Go adapter produces has an empty list of bases and an
  empty list of methods, and every top-level \<open>method_declaration\<close> of the file is reported in
  the top-level functions of the CodeSkeleton (with the doc comment that precedes it).
\<close>

theorem go_classes_without_methods:
  "(\<forall>c \<in> set (sk_classes (go_extract file_name root)). cls_bases c = [] \<and> cls_methods c = [])
   \<and> (\<forall>idx < length (children root).
        ntype (children root ! idx) = ''method_declaration'' \<longrightarrow>
        go_extract_function (children root ! idx) (go_preceding_doc (children root) idx)
          \<in> set (sk_functions (go_extract file_name root)))"
proof (rule conjI; intro ballI allI impI)
  fix c assume "c \<in> set (sk_classes (go_extract file_name root))"
  then obtain p where "c \<in> set (fst (snd (go_sibling (children root) p ([], [], []))))"
    by (auto simp: go_extract_lists)
  then show "cls_bases c = [] \<and> cls_methods c = []"
    using go_type_child_classes [of c "children root" "fst p" "children (snd p)" "[]"]
    by (cases p) (auto simp: go_sibling_def split: if_splits)
next
  fix idx assume a: "idx < length (children root)"
    "ntype (children root ! idx) = ''method_declaration''"
  let ?p = "(idx, children root ! idx)"
  have "?p \<in> set (enumerate 0 (children root))"
    using a(1) by (simp add: in_set_enumerate_eq)
  moreover have "snd (snd (go_sibling (children root) ?p ([], [], [])))
      = [go_extract_function (children root ! idx) (go_preceding_doc (children root) idx)]"
    using a(2) by (simp add: go_sibling_def)
  ultimately have "\<exists>p \<in> set (enumerate 0 (children root)).
      go_extract_function (children root ! idx) (go_preceding_doc (children root) idx)
        \<in> set (snd (snd (go_sibling (children root) p ([], [], []))))"
    by (intro bexI [of _ ?p]) simp_all
  then show "go_extract_function (children root ! idx) (go_preceding_doc (children root) idx)
          \<in> set (sk_functions (go_extract file_name root))"
    by (simp add: go_extract_lists)
qed


theorem go_classes_without_methods_witness:
  "cls_bases (hd (sk_classes (go_extract ''server.go'' go_server_file))) = []
   \<and> cls_methods (hd (sk_classes (go_extract ''server.go'' go_server_file))) = []
   \<and> \<lparr>fn_name = ''Add'', fn_params = ''a int, b int'', fn_return_type = ''int'',
        fn_docstring = ''Add does X.''\<rparr>
       \<in> set (sk_functions (go_extract ''server.go'' go_server_file))"
  using go_classes_without_methods [of "''server.go''" go_server_file]
  by (simp add: go_server_file_skeleton)

text \<open>What holds of the receiver: in a method declaration the first parameter list is
  passed over, and the next one is reported when it is not empty.\<close>

lemma go_fold_no_parameter_list:
  "\<forall>c\<in>set cs. ntype c \<noteq> ''parameter_list'' \<Longrightarrow>
   \<exists>name' return_type'.
     fold (go_function_child is_method) cs (name, params, return_type, k)
       = (name', params, return_type', k)"
proof (induction cs arbitrary: name return_type)
  case Nil
  then show ?case by simp
next
  case (Cons c cs)
  then have "ntype c \<noteq> ''parameter_list''" by simp
  then have "\<exists>n r.
      go_function_child is_method c (name, params, return_type, k) = (n, params, r, k)"
    by (simp add: go_function_child_def)
  then obtain n r where
    "go_function_child is_method c (name, params, return_type, k) = (n, params, r, k)"
    by blast
  then show ?case using Cons.IH [of n r] Cons.prems by simp
qed

lemma go_fold_params_set:
  "params \<noteq> [] \<Longrightarrow>
   fst (snd (fold (go_function_child is_method) cs (name, params, return_type, k))) = params"
proof (induction cs arbitrary: name return_type k)
  case Nil
  then show ?case by simp
next
  case (Cons c cs)
  have "\<exists>n r k'.
      go_function_child is_method c (name, params, return_type, k) = (n, params, r, k')"
    using Cons.prems by (simp add: go_function_child_def Let_def)
  then obtain n r k' where
    "go_function_child is_method c (name, params, return_type, k) = (n, params, r, k')"
    by blast
  then show ?case using Cons.IH [OF Cons.prems, of n r k'] by simp
qed

lemma go_method_params_after_receiver:
  assumes "ntype receiver = ''parameter_list''" "ntype plist = ''parameter_list''"
    and "strip_parens (node_text plist) \<noteq> []"
    and "\<forall>c\<in>set pre. ntype c \<noteq> ''parameter_list''"
    and "\<forall>c\<in>set mid. ntype c \<noteq> ''parameter_list''"
  shows "fn_params (go_extract_function
           (Node ''method_declaration'' text (pre @ receiver # mid @ plist # post)) docstring)
         = strip_parens (node_text plist)"
proof -
  let ?g = "go_function_child True"
  obtain n1 r1 where 1: "fold ?g pre ([], [], [], 0) = (n1, [], r1, 0)"
    using go_fold_no_parameter_list [OF assms(4), of True "[]" "[]" "[]" 0] by auto
  have 2: "?g receiver (n1, [], r1, 0) = (n1, [], r1, 1)"
    using assms(1) by (simp add: go_function_child_def)
  obtain n3 r3 where 3: "fold ?g mid (n1, [], r1, 1) = (n3, [], r3, 1)"
    using go_fold_no_parameter_list [OF assms(5), of True n1 "[]" r1 1] by auto
  have 4: "?g plist (n3, [], r3, 1) = (n3, strip_parens (node_text plist), r3, 2)"
    using assms(2) by (simp add: go_function_child_def)
  have "fst (snd (fold ?g post (n3, strip_parens (node_text plist), r3, 2)))
          = strip_parens (node_text plist)"
    using assms(3) by (rule go_fold_params_set)
  then have "fst (snd (fold ?g (pre @ receiver # mid @ plist # post) ([], [], [], 0)))
          = strip_parens (node_text plist)"
    by (simp only: fold_append fold_simps comp_apply 1 2 3 4)
  then show ?thesis
    by (cases "fold ?g (pre @ receiver # mid @ plist # post) ([], [], [], 0)")
       (simp add: go_extract_function_def)
qed

text \<open>
  C2 fails on a method whose parameter list is empty and whose result is a parenthesized
  list, as in \<^verbatim>\<open>func (s *Server) Close() (int, error) {}\<close>: the receiver list is skipped,
  the empty second list leaves \<open>params\<close> empty, and the third list, the result types, is
  reported as the parameters.
\<close>

theorem go_method_result_list_as_params:
  "go_extract_function go_close_method [] =
     \<lparr>fn_name = ''Close'', fn_params = ''int, error'', fn_return_type = [], fn_docstring = []\<rparr>"
  by (simp add: go_extract_function_def go_close_method_def go_receiver_list_def
      go_function_child_def str_defs)

section \<open>The Rust adapter\<close>

lemma rust_impl_foo_skeleton:
  "rust_extract_impl rust_impl_foo =
     \<lparr>cls_name = ''impl Foo'', cls_bases = [], cls_docstring = [],
      cls_methods = [\<lparr>fn_name = ''new'', fn_params = [], fn_return_type = ''Self'',
                      fn_docstring = ''Creates new''\<rparr>]\<rparr>"
  by (simp add: rust_extract_impl_def rust_impl_foo_def rust_impl_child_def rust_impl_member_def
      enumerate_eq_zip upt_rec rust_extract_function_def rust_function_child_def
      rust_preceding_doc_def str_defs)

text \<open>
  C3 fails on the impl block of a trait, \<^verbatim>\<open>impl Display for Foo\<close>: the block targets the type
  \<open>Foo\<close>, and the synthetic type is named after the trait, the first \<open>type_identifier\<close>
  child.
\<close>

theorem rust_trait_impl_named_after_trait:
  "rust_extract_impl rust_impl_display_for_foo =
     \<lparr>cls_name = ''impl Display'', cls_bases = [], cls_docstring = [],
      cls_methods = [\<lparr>fn_name = ''show'', fn_params = ''&self'', fn_return_type = [],
                      fn_docstring = []\<rparr>]\<rparr>"
  by (simp add: rust_extract_impl_def rust_impl_display_for_foo_def rust_impl_child_def
      rust_impl_member_def enumerate_eq_zip upt_rec rust_extract_function_def
      rust_function_child_def rust_preceding_doc_def str_defs)

lemma rust_struct_no_methods: "cls_methods (rust_extract_struct_or_trait node docstring) = []"
  by (simp add: rust_extract_struct_or_trait_def split: prod.splits)

section \<open>Import deduplication\<close>

lemma py_import_os_twice_imports:
  "sk_imports (py_extract ''dup.py'' py_import_os_twice) = [''os'', ''os'']"
  by (simp add: py_extract_def py_import_os_twice_def py_sibling_def py_extract_imports_def
      py_import_child_def)

lemma js_import_m_twice_imports:
  "sk_imports (js_extract ''javascript'' ''dup.js'' js_import_m_twice) = [''m'']"
  by (simp add: js_extract_def js_import_m_twice_def js_sibling_def enumerate_eq_zip upt_rec
      squote_def str_defs Let_def)

lemma js_sibling_seen:
  assumes "distinct (fst st) \<and> set (fst st) = fst (snd st)"
  shows "distinct (fst (js_sibling siblings p st))
         \<and> set (fst (js_sibling siblings p st)) = fst (snd (js_sibling siblings p st))"
proof -
  obtain idx child where p: "p = (idx, child)" by (cases p)
  obtain i s c f where st: "st = (i, s, c, f)" by (cases st)
  show ?thesis
    using assms unfolding p st js_sibling_def
    by (auto simp: Let_def split: option.splits)
qed

lemma js_fold_seen:
  "distinct (fst st) \<and> set (fst st) = fst (snd st) \<Longrightarrow>
   distinct (fst (fold (js_sibling siblings) ps st))
   \<and> set (fst (fold (js_sibling siblings) ps st)) = fst (snd (fold (js_sibling siblings) ps st))"
proof (induction ps arbitrary: st)
  case Nil
  then show ?case by simp
next
  case (Cons p ps)
  show ?case using Cons.IH [OF js_sibling_seen [OF Cons.prems]] by simp
qed

text \<open>
  C9. The imports that the JS/TS adapter produces are pairwise distinct, for every input;
  the Python adapter keeps a repeated import: for the file \<^verbatim>\<open>import os\<close>, \<^verbatim>\<open>import os\<close> its
  imports are \<open>os, os\<close>.
\<close>

theorem imports_dedup_js_not_python:
  "distinct (sk_imports (js_extract lang file_name root))
   \<and> \<not> distinct (sk_imports (py_extract ''dup.py'' py_import_os_twice))"
proof -
  have "distinct (fst (fold (js_sibling (children root)) (enumerate 0 (children root))
                        ([], {}, [], [])))"
    using js_fold_seen [of "([], {}, [], [])" "children root" "enumerate 0 (children root)"]
    by simp
  then have "distinct (sk_imports (js_extract lang file_name root))"
    by (cases "fold (js_sibling (children root)) (enumerate 0 (children root)) ([], {}, [], [])")
       (simp add: js_extract_def Let_def)
  then show ?thesis by (simp add: py_import_os_twice_imports)
qed

section \<open>The facade\<close>

lemma detect_xyz: "detect_language ''notes.xyz'' = None"
  by (simp add: detect_language_def file_extension_def ascii_lower_def)

text \<open>
  C1. The facade returns a text or the absence value \<open>None\<close>, and never anything else: in
  the model a failure inside an adapter is the parser's \<open>None\<close>, and no exception is left.
  It returns \<open>None\<close> for every file name whose extension is not in the table, whatever the
  content (so for \<open>notes.xyz\<close>), whenever the grammar of the selected language failed to
  load, and whenever the selected adapter raises.
\<close>

theorem facade_absence:
  "(detect_language file_name = None \<longrightarrow>
      extract_skeleton grammars file_name content verbose = None)
   \<and> extract_skeleton grammars ''notes.xyz'' content verbose = None
   \<and> (detect_language file_name = Some l \<and> grammars l = None \<longrightarrow>
        extract_skeleton grammars file_name content verbose = None)
   \<and> (detect_language file_name = Some l \<and> grammars l = Some parse \<and> parse content = None \<longrightarrow>
        extract_skeleton grammars file_name content verbose = None)"
  by (simp add: extract_skeleton_def detect_xyz)

theorem facade_absence_witness:
  "extract_skeleton sample_grammars ''a.unknown'' ''x'' False = None
   \<and> extract_skeleton sample_grammars ''a.go'' ''x'' False = None
   \<and> extract_skeleton sample_grammars ''a.py'' [] False = None"
  using facade_absence [of "''a.unknown''" sample_grammars "''x''" False]
        facade_absence [of "''a.go''" sample_grammars "''x''" False Go]
        facade_absence [of "''a.py''" sample_grammars "[]" False Python
                           "\<lambda>content. if content = [] then None else Some (Node ''root'' content [])"]
  by (simp add: detect_language_def file_extension_def ascii_lower_def sample_grammars_def)

section \<open>The layout of the text\<close>

lemma method_lines_appends: "method_lines verbose m lines = lines @ method_lines verbose m []"
  by (simp add: method_lines_def Let_def)

lemma function_lines_appends: "function_lines verbose f lines = lines @ function_lines verbose f []"
  by (simp add: function_lines_def Let_def)

lemma class_lines_appends: "class_lines verbose c lines = lines @ class_lines verbose c []"
proof -
  have "fold (method_lines verbose) ms acc = acc @ fold (method_lines verbose) ms []" for ms acc
    by (rule fold_appends_acc) (rule method_lines_appends)
  from this [of "cls_methods c" "lines @ _"] this [of "cls_methods c" "[] @ _"]
  show ?thesis
    unfolding class_lines_def Let_def by (metis append.assoc append_Nil)
qed

lemma to_text_lines_blocks:
  "to_text_lines sk verbose =
     [''# '' @ sk_file_name sk @ '' ['' @ sk_language sk @ '']'']
     @ (if sk_module_doc sk \<noteq> []
        then [''module: '' @ dquote @ strip (hd (split (sk_module_doc sk) newline)) @ dquote]
        else [])
     @ (if sk_imports sk \<noteq> [] then [''imports: '' @ join '', '' (sk_imports sk)] else [])
     @ [[]]
     @ concat (map (\<lambda>c. class_lines verbose c []) (sk_classes sk))
     @ concat (map (\<lambda>f. function_lines verbose f []) (sk_functions sk))"
proof -
  have c: "fold (class_lines verbose) cs acc
             = acc @ concat (map (\<lambda>c. class_lines verbose c []) cs)" for cs acc
    by (rule fold_appends) (rule class_lines_appends)
  have f: "fold (function_lines verbose) fs acc
             = acc @ concat (map (\<lambda>f. function_lines verbose f []) fs)" for fs acc
    by (rule fold_appends) (rule function_lines_appends)
  show ?thesis
    unfolding to_text_lines_def Let_def by (simp add: c f)
qed

lemma to_text_lines_header:
  "\<exists>rest. to_text_lines sk verbose
            = (''# '' @ sk_file_name sk @ '' ['' @ sk_language sk @ '']'') # rest \<and> rest \<noteq> []"
  by (subst to_text_lines_blocks) simp

lemma rstrip_keeps_prefix:
  assumes "h \<noteq> []" "\<not> isspace (last h)"
  shows "rstrip (h @ y) = h @ rstrip y"
proof (cases "rstrip y = []")
  case True
  then have "\<And>x. x \<in> set (rev y) \<Longrightarrow> isspace x" by (simp add: rstrip_def)
  then have "dropWhile isspace (rev y @ rev h) = dropWhile isspace (rev h)"
    by (rule dropWhile_append2)
  moreover have "dropWhile isspace (rev h) = rev h"
    using assms by (cases h rule: rev_cases) auto
  ultimately show ?thesis using True by (simp add: rstrip_def)
next
  case False
  then show ?thesis by (rule rstrip_append)
qed

lemma rstrip_Cons_ws: "isspace c \<Longrightarrow> rstrip (c # x) = [] \<or> (\<exists>r. rstrip (c # x) = c # r)"
proof -
  have "rstrip (c # x) = take (length (rstrip (c # x))) (c # x)"
    unfolding rstrip_def
    by (metis append_eq_conv_conj rev_append rev_rev_ident takeWhile_dropWhile_id)
  then show ?thesis by (cases "rstrip (c # x)") (auto simp: take_Cons' split: if_splits)
qed

lemma split_hd_line: "sep \<notin> set a \<Longrightarrow> hd (split (a @ sep # r) sep) = a"
  by (induction a) (auto split: list.splits simp: split_not_Nil)

lemma split_hd_whole: "sep \<notin> set a \<Longrightarrow> hd (split a sep) = a"
  by (induction a) (auto split: list.splits simp: split_not_Nil)

lemma to_text_first_line:
  assumes "newline \<notin> set (sk_file_name sk)" "newline \<notin> set (sk_language sk)"
  shows "hd (split (to_text sk verbose) newline)
           = ''# '' @ sk_file_name sk @ '' ['' @ sk_language sk @ '']''"
proof -
  let ?H = "''# '' @ sk_file_name sk @ '' ['' @ sk_language sk @ '']''"
  obtain rest where r: "to_text_lines sk verbose = ?H # rest" "rest \<noteq> []"
    using to_text_lines_header by blast
  let ?X = "join [newline] rest"
  have j: "join [newline] (to_text_lines sk verbose) = ?H @ newline # ?X"
    using r by (simp add: join_Cons)
  have l: "lstrip (?H @ newline # ?X) = ?H @ newline # ?X"
    by (simp add: lstrip_def isspace_def)
  have "rstrip (?H @ newline # ?X) = ?H @ rstrip (newline # ?X)"
    by (rule rstrip_keeps_prefix) (simp_all add: isspace_def)
  moreover have "isspace newline" by (simp add: isspace_def)
  ultimately have "to_text sk verbose = ?H \<or> (\<exists>z. to_text sk verbose = ?H @ newline # z)"
    using rstrip_Cons_ws [of newline ?X] j l by (auto simp: to_text_def strip_def)
  moreover have "newline \<notin> set ?H" using assms by simp
  ultimately show ?thesis
    using split_hd_line [of newline ?H] split_hd_whole [of newline ?H] by metis
qed

lemma adapter_extract_header:
  "sk_file_name (adapter_extract l file_name root) = file_name
   \<and> sk_language (adapter_extract l file_name root) = display_name l"
  by (cases l)
     (simp_all add: adapter_extract_def display_name_def py_extract_def js_extract_def
        js_lang_name_def java_extract_def cpp_extract_def rust_extract_def go_extract_def
        Let_def split: prod.splits)

text \<open>
  C7 (as amended). For every supported file name that contains no line feed, every content
  and both verbosities, the first line of the text that the facade returns is
  \<open># <file_name> [<Language>]\<close>, with the display name of the language that the extension
  selects.
\<close>

theorem header_line_without_line_feed:
  "newline \<notin> set file_name \<Longrightarrow>
   extract_skeleton grammars file_name content verbose = Some txt \<Longrightarrow>
   \<exists>l. detect_language file_name = Some l
       \<and> hd (split txt newline) = ''# '' @ file_name @ '' ['' @ display_name l @ '']''"
proof -
  assume n: "newline \<notin> set file_name"
    and s: "extract_skeleton grammars file_name content verbose = Some txt"
  from s obtain l parse root where
    d: "detect_language file_name = Some l" and "grammars l = Some parse"
    and "parse content = Some root"
    and t: "txt = to_text (adapter_extract l file_name root) verbose"
    by (auto simp: extract_skeleton_def split: option.splits)
  have "newline \<notin> set (display_name l)"
    by (cases l) (simp_all add: display_name_def)
  then have "hd (split txt newline) = ''# '' @ file_name @ '' ['' @ display_name l @ '']''"
    using to_text_first_line [of "adapter_extract l file_name root" verbose] n
    by (simp add: t adapter_extract_header)
  with d show ?thesis by blast
qed

theorem header_line_without_line_feed_witness:
  "hd (split ''# a.py [Python]'' newline) = ''# a.py [Python]''"
  using header_line_without_line_feed [of "''a.py''" sample_grammars "''x''" False "''# a.py [Python]''"]
  by (simp add: detect_language_def file_extension_def ascii_lower_def sample_grammars_def
      extract_skeleton_def adapter_extract_def py_extract_def to_text_def to_text_lines_def
      display_name_def str_defs)

text \<open>
  C7 as stated fails for a file name with a line feed in it: the file name is echoed as it
  is, and the first line of the text ends where the file name breaks.
\<close>

theorem header_line_counterexample:
  "extract_skeleton sample_grammars ''a\<newline>.py'' ''x'' False = Some ''# a\<newline>.py [Python]''
   \<and> hd (split ''# a\<newline>.py [Python]'' newline) = ''# a''"
  by (simp add: detect_language_def file_extension_def ascii_lower_def sample_grammars_def
      extract_skeleton_def adapter_extract_def py_extract_def to_text_def to_text_lines_def
      str_defs)

section \<open>Declaration order\<close>

lemma fold_appends2:
  assumes "\<And>x st. f x st = (fst st @ fst (f x ([], [])), snd st @ snd (f x ([], [])))"
  shows "fold f xs st =
           (fst st @ concat (map (\<lambda>x. fst (f x ([], []))) xs),
            snd st @ concat (map (\<lambda>x. snd (f x ([], []))) xs))"
proof (induction xs arbitrary: st)
  case Nil
  then show ?case by simp
next
  case (Cons x xs)
  have "fold f (x # xs) st = fold f xs (f x st)" by simp
  also have "\<dots> = fold f xs (fst st @ fst (f x ([], [])), snd st @ snd (f x ([], [])))"
    using assms [of x st] by simp
  finally show ?case by (simp add: Cons.IH)
qed

lemma fold_snd_appends:
  assumes "\<And>x a m. snd (f x (a, m)) = m @ snd (f x (a0, []))"
  shows "snd (fold f xs (a, m)) = m @ concat (map (\<lambda>x. snd (f x (a0, []))) xs)"
proof (induction xs arbitrary: a m)
  case Nil
  then show ?case by simp
next
  case (Cons x xs)
  obtain a' m' where s: "f x (a, m) = (a', m')" by (cases "f x (a, m)")
  then have "m' = m @ snd (f x (a0, []))" using assms [of x a m] by simp
  then show ?case using Cons.IH [of a' m'] s by simp
qed

subsection \<open>Rust\<close>

lemma rust_sibling_appends:
  "rust_sibling siblings p st = append3 st (rust_sibling siblings p ([], [], []))"
  by (cases p, cases st) (simp add: rust_sibling_def append3_def split: prod.splits)

lemma rust_extract_lists:
  "sk_imports (rust_extract file_name root)
     = concat (map (\<lambda>p. fst (rust_sibling (children root) p ([], [], [])))
                   (enumerate 0 (children root)))"
  "sk_classes (rust_extract file_name root)
     = concat (map (\<lambda>p. fst (snd (rust_sibling (children root) p ([], [], []))))
                   (enumerate 0 (children root)))"
  "sk_functions (rust_extract file_name root)
     = concat (map (\<lambda>p. snd (snd (rust_sibling (children root) p ([], [], []))))
                   (enumerate 0 (children root)))"
  unfolding rust_extract_def Let_def
  by (simp_all add: fold_appends3 [of "rust_sibling (children root)", OF rust_sibling_appends])

lemma rust_impl_member_appends:
  "rust_impl_member siblings p methods = methods @ rust_impl_member siblings p []"
  by (cases p) (simp add: rust_impl_member_def)

lemma rust_impl_child_methods:
  "snd (rust_impl_child child (name, methods)) = methods @ snd (rust_impl_child child ([], []))"
proof -
  have "fold (rust_impl_member (children child)) (enumerate 0 (children child)) methods
        = methods @ fold (rust_impl_member (children child)) (enumerate 0 (children child)) []"
    by (rule fold_appends_acc) (rule rust_impl_member_appends)
  then show ?thesis by (simp add: rust_impl_child_def Let_def)
qed

lemma rust_impl_methods:
  "cls_methods (rust_extract_impl node)
     = concat (map (\<lambda>child. snd (rust_impl_child child ([], []))) (children node))"
  using fold_snd_appends [of rust_impl_child "[]" "children node" "[]" "[]",
          OF rust_impl_child_methods]
  by (cases "fold rust_impl_child (children node) ([], [])") (simp add: rust_extract_impl_def)

lemma rust_impl_body_methods:
  "snd (rust_impl_child child ([], []))
     = (if ntype child = ''declaration_list''
        then concat (map (\<lambda>p. rust_impl_member (children child) p [])
                         (enumerate 0 (children child)))
        else [])"
  using fold_appends [of "rust_impl_member (children child)" "enumerate 0 (children child)" "[]",
          OF rust_impl_member_appends]
  by (simp add: rust_impl_child_def Let_def)

subsection \<open>Python\<close>





subsection \<open>Java\<close>

lemma java_sibling_appends:
  "java_sibling siblings p st = append3 st (java_sibling siblings p ([], [], []))"
proof -
  let ?f = "\<lambda>sub imports.
              if ntype sub = ''scoped_identifier'' then imports @ [node_text sub]
              else if ntype sub = ''identifier'' then imports @ [node_text sub]
              else imports"
  obtain idx child where p: "p = (idx, child)" by (cases p)
  obtain i c f where st: "st = (i, c, f)" by (cases st)
  have "fold ?f (children child) i = i @ fold ?f (children child) []"
    by (rule fold_appends_acc) simp
  then show ?thesis
    unfolding p st by (simp add: java_sibling_def append3_def)
qed

lemma java_extract_lists:
  "sk_imports (java_extract file_name root)
     = concat (map (\<lambda>p. fst (java_sibling (children root) p ([], [], [])))
                   (enumerate 0 (children root)))"
  "sk_classes (java_extract file_name root)
     = concat (map (\<lambda>p. fst (snd (java_sibling (children root) p ([], [], []))))
                   (enumerate 0 (children root)))"
  "sk_functions (java_extract file_name root)
     = concat (map (\<lambda>p. snd (snd (java_sibling (children root) p ([], [], []))))
                   (enumerate 0 (children root)))"
proof -
  have "snd (snd (java_sibling siblings p ([], [], []))) = []" for siblings p
    by (cases p) (simp add: java_sibling_def)
  then show
    "sk_functions (java_extract file_name root)
       = concat (map (\<lambda>p. snd (snd (java_sibling (children root) p ([], [], []))))
                     (enumerate 0 (children root)))"
    by (simp add: java_extract_def Let_def split: prod.splits)
qed (simp_all add: java_extract_def Let_def
       fold_appends3 [of "java_sibling (children root)", OF java_sibling_appends])

lemma java_class_member_appends:
  "java_class_member siblings p methods = methods @ java_class_member siblings p []"
  by (cases p) (simp add: java_class_member_def)

lemma java_class_methods:
  "cls_methods (java_extract_class node docstring)
     = (case snd (snd (fold java_class_child (children node) ([], [], None))) of
          None \<Rightarrow> []
        | Some body \<Rightarrow> concat (map (\<lambda>p. java_class_member (children body) p [])
                                     (enumerate 0 (children body))))"
proof (cases "fold java_class_child (children node) ([], [], None)")
  case (fields name bases body_node)
  show ?thesis
    using fold_appends [of "java_class_member _" _ "[]", OF java_class_member_appends]
    by (cases body_node) (simp_all add: java_extract_class_def fields)
qed

subsection \<open>C and C++\<close>

lemma cpp_namespace_member_appends:
  "cpp_namespace_member inner p st =
     (fst st @ fst (cpp_namespace_member inner p ([], [])),
      snd st @ snd (cpp_namespace_member inner p ([], [])))"
  by (cases p, cases st) (simp add: cpp_namespace_member_def)

lemma cpp_namespace_child_appends:
  "cpp_namespace_child sub st =
     (fst st @ fst (cpp_namespace_child sub ([], [])),
      snd st @ snd (cpp_namespace_child sub ([], [])))"
  using fold_appends2 [of "cpp_namespace_member (children sub)" "enumerate 0 (children sub)" st,
          OF cpp_namespace_member_appends]
        fold_appends2 [of "cpp_namespace_member (children sub)" "enumerate 0 (children sub)"
          "([], [])", OF cpp_namespace_member_appends]
  by (simp add: cpp_namespace_child_def Let_def)

lemma cpp_sibling_appends:
  "cpp_sibling siblings p st = append3 st (cpp_sibling siblings p ([], [], []))"
proof -
  let ?f = "\<lambda>sub imports.
              if ntype sub \<in> {''string_literal'', ''system_lib_string''}
              then imports @ [strip_chars (strip (node_text sub)) (dquote @ ''<>'')]
              else imports"
  obtain idx child where p: "p = (idx, child)" by (cases p)
  obtain i c f where st: "st = (i, c, f)" by (cases st)
  have 1: "fold ?f (children child) i = i @ fold ?f (children child) []"
    by (rule fold_appends_acc) simp
  have 2: "fold cpp_namespace_child (children child) (c, f)
      = (c @ fst (fold cpp_namespace_child (children child) ([], [])),
         f @ snd (fold cpp_namespace_child (children child) ([], [])))"
    using fold_appends2 [of cpp_namespace_child "children child" "(c, f)",
            OF cpp_namespace_child_appends]
          fold_appends2 [of cpp_namespace_child "children child" "([], [])",
            OF cpp_namespace_child_appends]
    by simp
  show ?thesis
    unfolding p st cpp_sibling_def append3_def using 1 2
    by (simp split: prod.splits)
qed

lemma cpp_extract_lists:
  "sk_imports (cpp_extract file_name root)
     = concat (map (\<lambda>p. fst (cpp_sibling (children root) p ([], [], [])))
                   (enumerate 0 (children root)))"
  "sk_classes (cpp_extract file_name root)
     = concat (map (\<lambda>p. fst (snd (cpp_sibling (children root) p ([], [], []))))
                   (enumerate 0 (children root)))"
  "sk_functions (cpp_extract file_name root)
     = concat (map (\<lambda>p. snd (snd (cpp_sibling (children root) p ([], [], []))))
                   (enumerate 0 (children root)))"
  unfolding cpp_extract_def Let_def
  by (simp_all add: fold_appends3 [of "cpp_sibling (children root)", OF cpp_sibling_appends])

lemma cpp_class_member_appends:
  "cpp_class_member siblings p methods = methods @ cpp_class_member siblings p []"
  by (cases p) (simp add: cpp_class_member_def split: prod.splits)

lemma cpp_class_methods:
  "cls_methods (cpp_extract_class node docstring)
     = (case snd (snd (fold cpp_class_child (children node) ([], [], None))) of
          None \<Rightarrow> []
        | Some body \<Rightarrow> concat (map (\<lambda>p. cpp_class_member (children body) p [])
                                     (enumerate 0 (children body))))"
proof (cases "fold cpp_class_child (children node) ([], [], None)")
  case (fields name bases body_node)
  show ?thesis
    using fold_appends [of "cpp_class_member _" _ "[]", OF cpp_class_member_appends]
    by (cases body_node) (simp_all add: cpp_extract_class_def fields)
qed

subsection \<open>JavaScript and TypeScript\<close>












lemma class_lines_block:
  "class_lines verbose c [] =
     [''class '' @ cls_name c
        @ (if cls_bases c \<noteq> [] then ''('' @ join '', '' (cls_bases c) @ '')'' else [])]
     @ doc verbose (cls_docstring c) ''  ''
     @ concat (map (\<lambda>m. method_lines verbose m []) (cls_methods c))
     @ [[]]"
proof -
  have "fold (method_lines verbose) ms acc
          = acc @ concat (map (\<lambda>m. method_lines verbose m []) ms)" for ms acc
    by (rule fold_appends) (rule method_lines_appends)
  then show ?thesis by (simp add: class_lines_def Let_def)
qed



section \<open>Docstrings in the text\<close>

text \<open>The lines of the text, with nothing left to the loops: the header, the module line,
  the imports line, an empty line, one block per class (its line, its docstring, one entry
  per method with its docstring, an empty line) and one entry per function with its
  docstring.\<close>

lemma to_text_lines_explicit:
  "to_text_lines sk verbose =
     [''# '' @ sk_file_name sk @ '' ['' @ sk_language sk @ '']'']
     @ (if sk_module_doc sk \<noteq> []
        then [''module: '' @ dquote @ strip (hd (split (sk_module_doc sk) newline)) @ dquote]
        else [])
     @ (if sk_imports sk \<noteq> [] then [''imports: '' @ join '', '' (sk_imports sk)] else [])
     @ [[]]
     @ concat (map (\<lambda>c.
          [''class '' @ cls_name c
             @ (if cls_bases c \<noteq> [] then ''('' @ join '', '' (cls_bases c) @ '')'' else [])]
          @ doc verbose (cls_docstring c) ''  ''
          @ concat (map (\<lambda>m.
               [''  + '' @ fn_name m @ ''('' @ compact_params (fn_params m) @ '')''
                  @ (if fn_return_type m \<noteq> [] then '' -> '' @ fn_return_type m else [])]
               @ doc verbose (fn_docstring m) ''    '') (cls_methods c))
          @ [[]]) (sk_classes sk))
     @ concat (map (\<lambda>f.
          [''def '' @ fn_name f @ ''('' @ compact_params (fn_params f) @ '')''
             @ (if fn_return_type f \<noteq> [] then '' -> '' @ fn_return_type f else [])]
          @ doc verbose (fn_docstring f) ''  '') (sk_functions sk))"
  by (simp add: to_text_lines_blocks class_lines_block method_lines_def function_lines_def
      Let_def)

text \<open>
  C5. In compact mode (\<open>verbose = False\<close>) the text that \<open>to_text\<close> returns has, for every
  class, method and function with a non-empty docstring, exactly one docstring line, right
  after the line of the class, method or function: the indent, the triple-quote marker, the
  first line of the docstring (the text before its first line feed, trimmed) and the closing
  marker; no other line of the text comes from a docstring (the module line apart). The
  text between the markers contains no line feed, so a multi-line docstring yields one
  line, its first.
\<close>

theorem to_text_compact_first_line:
  "to_text sk False =
     strip (join [newline]
       ([''# '' @ sk_file_name sk @ '' ['' @ sk_language sk @ '']'']
        @ (if sk_module_doc sk \<noteq> []
           then [''module: '' @ dquote @ strip (hd (split (sk_module_doc sk) newline)) @ dquote]
           else [])
        @ (if sk_imports sk \<noteq> [] then [''imports: '' @ join '', '' (sk_imports sk)] else [])
        @ [[]]
        @ concat (map (\<lambda>c.
             [''class '' @ cls_name c
                @ (if cls_bases c \<noteq> [] then ''('' @ join '', '' (cls_bases c) @ '')'' else [])]
             @ (if cls_docstring c = [] then []
                else [''  '' @ dquote3 @ strip (hd (split (cls_docstring c) newline)) @ dquote3])
             @ concat (map (\<lambda>m.
                  [''  + '' @ fn_name m @ ''('' @ compact_params (fn_params m) @ '')''
                     @ (if fn_return_type m \<noteq> [] then '' -> '' @ fn_return_type m else [])]
                  @ (if fn_docstring m = [] then []
                     else [''    '' @ dquote3 @ strip (hd (split (fn_docstring m) newline))
                           @ dquote3])) (cls_methods c))
             @ [[]]) (sk_classes sk))
        @ concat (map (\<lambda>f.
             [''def '' @ fn_name f @ ''('' @ compact_params (fn_params f) @ '')''
                @ (if fn_return_type f \<noteq> [] then '' -> '' @ fn_return_type f else [])]
             @ (if fn_docstring f = [] then []
                else [''  '' @ dquote3 @ strip (hd (split (fn_docstring f) newline)) @ dquote3]))
             (sk_functions sk))))
   \<and> newline \<notin> set (strip (hd (split raw newline)))"
  unfolding to_text_def to_text_lines_explicit doc_compact
  using first_line_no_line_feed by simp

theorem to_text_compact_first_line_witness:
  "to_text docstring_sample False =
     ''# a.py [Python]'' @ [newline, newline]
     @ ''class A'' @ [newline] @ ''  '' @ dquote3 @ ''A class.'' @ dquote3 @ [newline]
     @ ''  + m(self)'' @ [newline] @ ''    '' @ dquote3 @ ''Does Y.'' @ dquote3 @ [newline, newline]
     @ ''def g()'' @ [newline] @ ''  '' @ dquote3 @ ''Does X.'' @ dquote3"
  using to_text_compact_first_line [of docstring_sample]
  by (simp add: docstring_sample_def compact_params_def dquote3_def str_defs)



section \<open>Declaration order, node by node\<close>

subsection \<open>Loops that append one element per selected node\<close>

lemma concat_map_if: "concat (map (\<lambda>x. if P x then [g x] else []) xs) = map g (filter P xs)"
  by (induction xs) auto

lemma fold_append_if:
  "fold (\<lambda>x acc. if P x then acc @ [g x] else acc) xs acc = acc @ map g (filter P xs)"
  by (induction xs arbitrary: acc) auto

lemma concat_map_snd_enumerate:
  "concat (map (\<lambda>p. F (snd p)) (enumerate n xs)) = concat (map F xs)"
  by (induction xs arbitrary: n) simp_all

lemma find_singleton:
  "(case find P xs of Some x \<Rightarrow> [g x] | None \<Rightarrow> []) = map g (take 1 (filter P xs))"
  by (induction xs) auto

subsection \<open>Go, node by node\<close>

lemma go_import_spec_strings:
  "go_import_spec spec [] =
     map (\<lambda>s. strip_chars (strip (node_text s)) dquote)
         (filter (\<lambda>s. ntype s = ''interpreted_string_literal'') (children spec))"
  unfolding go_import_spec_def by (simp add: fold_append_if)

lemma go_import_child_strings:
  "go_import_child sub [] =
     (if ntype sub = ''import_spec'' then go_import_spec sub []
      else if ntype sub = ''import_spec_list''
      then concat (map (\<lambda>s2. if ntype s2 = ''import_spec'' then go_import_spec s2 [] else [])
                       (children sub))
      else [])"
proof -
  let ?f = "\<lambda>s2 imports. if ntype s2 = ''import_spec'' then go_import_spec s2 imports else imports"
  have f: "?f x acc = acc @ ?f x []" for x acc
    by (cases "ntype x = ''import_spec''") (simp_all add: go_import_spec_appends [of x acc])
  have "fold ?f (children sub) [] = concat (map (\<lambda>x. ?f x []) (children sub))"
    using fold_appends [of ?f "children sub" "[]", OF f] by simp
  then show ?thesis by (simp add: go_import_child_def)
qed

lemma go_sibling_imports:
  "fst (go_sibling siblings p ([], [], [])) =
     (if ntype (snd p) = ''import_declaration''
      then concat (map (\<lambda>sub. go_import_child sub []) (children (snd p)))
      else [])"
  using fold_appends [of go_import_child "children (snd p)" "[]", OF go_import_child_appends]
  by (cases p) (simp add: go_sibling_def)

lemma go_sibling_classes:
  "fst (snd (go_sibling siblings p ([], [], []))) =
     (case p of (idx, child) \<Rightarrow>
        if ntype child = ''type_declaration''
        then map (\<lambda>sub. go_extract_struct sub (go_preceding_doc siblings idx))
                 (filter (\<lambda>sub. ntype sub = ''type_spec''
                            \<and> list_ex (\<lambda>s2. ntype s2 \<in> {''struct_type'', ''interface_type''})
                                      (children sub))
                         (children child))
        else [])"
proof -
  obtain idx child where p: "p = (idx, child)" by (cases p)
  have "fold (go_type_child siblings idx) cs []
          = map (\<lambda>sub. go_extract_struct sub (go_preceding_doc siblings idx))
                (filter (\<lambda>sub. ntype sub = ''type_spec''
                           \<and> list_ex (\<lambda>s2. ntype s2 \<in> {''struct_type'', ''interface_type''})
                                     (children sub)) cs)" for cs
    using fold_append_if [of "\<lambda>sub. ntype sub = ''type_spec''
                           \<and> list_ex (\<lambda>s2. ntype s2 \<in> {''struct_type'', ''interface_type''})
                                     (children sub)"
            "\<lambda>sub. go_extract_struct sub (go_preceding_doc siblings idx)" cs "[]"]
    by (simp add: go_type_child_def [abs_def])
  then show ?thesis unfolding p by (simp add: go_sibling_def)
qed

lemma go_sibling_functions:
  "snd (snd (go_sibling siblings p ([], [], []))) =
     (if (case p of (idx, child) \<Rightarrow>
            ntype child \<in> {''function_declaration'', ''method_declaration''})
      then [case p of (idx, child) \<Rightarrow> go_extract_function child (go_preceding_doc siblings idx)]
      else [])"
  by (cases p) (simp add: go_sibling_def)

lemma go_lists_by_node:
  "sk_imports (go_extract file_name root) =
     concat (map (\<lambda>child.
        if ntype child = ''import_declaration''
        then concat (map (\<lambda>sub.
               if ntype sub = ''import_spec''
               then map (\<lambda>s. strip_chars (strip (node_text s)) dquote)
                        (filter (\<lambda>s. ntype s = ''interpreted_string_literal'') (children sub))
               else if ntype sub = ''import_spec_list''
               then concat (map (\<lambda>s2.
                      if ntype s2 = ''import_spec''
                      then map (\<lambda>s. strip_chars (strip (node_text s)) dquote)
                               (filter (\<lambda>s. ntype s = ''interpreted_string_literal'')
                                       (children s2))
                      else []) (children sub))
               else []) (children child))
        else []) (children root))"
  "sk_classes (go_extract file_name root) =
     concat (map (\<lambda>(idx, child).
        if ntype child = ''type_declaration''
        then map (\<lambda>sub. go_extract_struct sub (go_preceding_doc (children root) idx))
                 (filter (\<lambda>sub. ntype sub = ''type_spec''
                            \<and> list_ex (\<lambda>s2. ntype s2 \<in> {''struct_type'', ''interface_type''})
                                      (children sub))
                         (children child))
        else []) (enumerate 0 (children root)))"
  "sk_functions (go_extract file_name root) =
     map (\<lambda>(idx, child). go_extract_function child (go_preceding_doc (children root) idx))
         (filter (\<lambda>(idx, child). ntype child \<in> {''function_declaration'', ''method_declaration''})
                 (enumerate 0 (children root)))"
proof -
  show "sk_imports (go_extract file_name root) =
     concat (map (\<lambda>child.
        if ntype child = ''import_declaration''
        then concat (map (\<lambda>sub.
               if ntype sub = ''import_spec''
               then map (\<lambda>s. strip_chars (strip (node_text s)) dquote)
                        (filter (\<lambda>s. ntype s = ''interpreted_string_literal'') (children sub))
               else if ntype sub = ''import_spec_list''
               then concat (map (\<lambda>s2.
                      if ntype s2 = ''import_spec''
                      then map (\<lambda>s. strip_chars (strip (node_text s)) dquote)
                               (filter (\<lambda>s. ntype s = ''interpreted_string_literal'')
                                       (children s2))
                      else []) (children sub))
               else []) (children child))
        else []) (children root))"
    unfolding go_extract_lists(1) go_sibling_imports go_import_child_strings
      go_import_spec_strings
    by (rule concat_map_snd_enumerate)
  show "sk_classes (go_extract file_name root) =
     concat (map (\<lambda>(idx, child).
        if ntype child = ''type_declaration''
        then map (\<lambda>sub. go_extract_struct sub (go_preceding_doc (children root) idx))
                 (filter (\<lambda>sub. ntype sub = ''type_spec''
                            \<and> list_ex (\<lambda>s2. ntype s2 \<in> {''struct_type'', ''interface_type''})
                                      (children sub))
                         (children child))
        else []) (enumerate 0 (children root)))"
    unfolding go_extract_lists(2) go_sibling_classes ..
  show "sk_functions (go_extract file_name root) =
     map (\<lambda>(idx, child). go_extract_function child (go_preceding_doc (children root) idx))
         (filter (\<lambda>(idx, child). ntype child \<in> {''function_declaration'', ''method_declaration''})
                 (enumerate 0 (children root)))"
    unfolding go_extract_lists(3) go_sibling_functions concat_map_if ..
qed


subsection \<open>Rust, node by node\<close>

lemma rust_sibling_imports:
  "fst (rust_sibling siblings p ([], [], [])) =
     (if ntype (snd p) = ''use_declaration''
      then [remove_all (rstrip_chars (strip (node_text (snd p))) '';'') ''use '']
      else [])"
  by (cases p) (simp add: rust_sibling_def)

lemma rust_sibling_classes:
  "fst (snd (rust_sibling siblings p ([], [], []))) =
     (case p of (idx, child) \<Rightarrow>
        if ntype child \<in> {''struct_item'', ''trait_item'', ''enum_item''}
        then [rust_extract_struct_or_trait child (rust_preceding_doc siblings idx)]
        else if ntype child = ''impl_item'' then [rust_extract_impl child]
        else [])"
  by (cases p) (simp add: rust_sibling_def)

lemma rust_sibling_functions:
  "snd (snd (rust_sibling siblings p ([], [], []))) =
     (if (case p of (idx, child) \<Rightarrow> ntype child = ''function_item'')
      then [case p of (idx, child) \<Rightarrow>
              rust_extract_function child (rust_preceding_doc siblings idx)]
      else [])"
  by (cases p) (simp add: rust_sibling_def)

lemma rust_impl_member_method:
  "rust_impl_member siblings p [] =
     (if (case p of (idx, sub) \<Rightarrow> ntype sub = ''function_item'')
      then [case p of (idx, sub) \<Rightarrow> rust_extract_function sub (rust_preceding_doc siblings idx)]
      else [])"
  by (cases p) (simp add: rust_impl_member_def)

lemma rust_lists_by_node:
  "sk_imports (rust_extract file_name root) =
     map (\<lambda>child. remove_all (rstrip_chars (strip (node_text child)) '';'') ''use '')
         (filter (\<lambda>child. ntype child = ''use_declaration'') (children root))"
  "sk_classes (rust_extract file_name root) =
     concat (map (\<lambda>(idx, child).
        if ntype child \<in> {''struct_item'', ''trait_item'', ''enum_item''}
        then [rust_extract_struct_or_trait child (rust_preceding_doc (children root) idx)]
        else if ntype child = ''impl_item'' then [rust_extract_impl child]
        else []) (enumerate 0 (children root)))"
  "sk_functions (rust_extract file_name root) =
     map (\<lambda>(idx, child). rust_extract_function child (rust_preceding_doc (children root) idx))
         (filter (\<lambda>(idx, child). ntype child = ''function_item'') (enumerate 0 (children root)))"
  "cls_methods (rust_extract_impl node) =
     concat (map (\<lambda>child.
        if ntype child = ''declaration_list''
        then map (\<lambda>(idx, sub). rust_extract_function sub (rust_preceding_doc (children child) idx))
                 (filter (\<lambda>(idx, sub). ntype sub = ''function_item'')
                         (enumerate 0 (children child)))
        else []) (children node))"
proof -
  have "sk_imports (rust_extract file_name root) =
      concat (map (\<lambda>child. if ntype child = ''use_declaration''
                      then [remove_all (rstrip_chars (strip (node_text child)) '';'') ''use '']
                      else []) (children root))"
    unfolding rust_extract_lists(1) rust_sibling_imports
    by (rule concat_map_snd_enumerate)
  then show "sk_imports (rust_extract file_name root) =
     map (\<lambda>child. remove_all (rstrip_chars (strip (node_text child)) '';'') ''use '')
         (filter (\<lambda>child. ntype child = ''use_declaration'') (children root))"
    by (simp only: concat_map_if)
  show "sk_classes (rust_extract file_name root) =
     concat (map (\<lambda>(idx, child).
        if ntype child \<in> {''struct_item'', ''trait_item'', ''enum_item''}
        then [rust_extract_struct_or_trait child (rust_preceding_doc (children root) idx)]
        else if ntype child = ''impl_item'' then [rust_extract_impl child]
        else []) (enumerate 0 (children root)))"
    unfolding rust_extract_lists(2) rust_sibling_classes ..
  show "sk_functions (rust_extract file_name root) =
     map (\<lambda>(idx, child). rust_extract_function child (rust_preceding_doc (children root) idx))
         (filter (\<lambda>(idx, child). ntype child = ''function_item'') (enumerate 0 (children root)))"
    unfolding rust_extract_lists(3) rust_sibling_functions concat_map_if ..
  show "cls_methods (rust_extract_impl node) =
     concat (map (\<lambda>child.
        if ntype child = ''declaration_list''
        then map (\<lambda>(idx, sub). rust_extract_function sub (rust_preceding_doc (children child) idx))
                 (filter (\<lambda>(idx, sub). ntype sub = ''function_item'')
                         (enumerate 0 (children child)))
        else []) (children node))"
    unfolding rust_impl_methods rust_impl_body_methods rust_impl_member_method concat_map_if ..
qed

subsection \<open>Java, node by node\<close>

lemma last_child_of_type:
  assumes "\<And>x st. snd (snd (f x st)) = (if P x then Some x else snd (snd st))"
  shows "snd (snd (fold f xs st))
           = (case find P (rev xs) of Some x \<Rightarrow> Some x | None \<Rightarrow> snd (snd st))"
proof (induction xs rule: rev_induct)
  case Nil
  then show ?case by simp
next
  case (snoc x xs)
  then show ?case by (simp add: assms)
qed

lemma java_class_body:
  "snd (snd (fold java_class_child cs ([], [], None)))
     = find (\<lambda>c. ntype c = ''class_body'') (rev cs)"
proof -
  have "snd (snd (java_class_child x st))
          = (if ntype x = ''class_body'' then Some x else snd (snd st))" for x st
    by (cases st) (simp add: java_class_child_def)
  from last_child_of_type [of java_class_child "\<lambda>c. ntype c = ''class_body''", OF this]
  show ?thesis by (simp split: option.splits)
qed

lemma java_sibling_imports:
  "fst (java_sibling siblings p ([], [], [])) =
     (if ntype (snd p) = ''import_declaration''
      then map node_text (filter (\<lambda>sub. ntype sub \<in> {''scoped_identifier'', ''identifier''})
                                 (children (snd p)))
      else [])"
proof -
  have "(\<lambda>sub imports. if ntype sub = ''scoped_identifier'' then imports @ [node_text sub]
                       else if ntype sub = ''identifier'' then imports @ [node_text sub]
                       else imports)
      = (\<lambda>sub imports. if ntype sub \<in> {''scoped_identifier'', ''identifier''}
                        then imports @ [node_text sub] else imports)"
    by (intro ext) simp
  then show ?thesis
    by (cases p) (simp add: java_sibling_def fold_append_if)
qed

lemma java_sibling_classes:
  "fst (snd (java_sibling siblings p ([], [], []))) =
     (if (case p of (idx, child) \<Rightarrow>
            ntype child \<in> {''class_declaration'', ''interface_declaration'',
                            ''enum_declaration''})
      then [case p of (idx, child) \<Rightarrow> java_extract_class child (java_preceding_doc siblings idx)]
      else [])"
  by (cases p) (simp add: java_sibling_def)

lemma java_class_member_method:
  "java_class_member siblings p [] =
     (if (case p of (idx, child) \<Rightarrow>
            ntype child \<in> {''method_declaration'', ''constructor_declaration''})
      then [case p of (idx, child) \<Rightarrow>
              java_extract_method child (java_preceding_doc siblings idx)]
      else [])"
  by (cases p) (simp add: java_class_member_def)

lemma java_lists_by_node:
  "sk_imports (java_extract file_name root) =
     concat (map (\<lambda>child.
        if ntype child = ''import_declaration''
        then map node_text (filter (\<lambda>sub. ntype sub \<in> {''scoped_identifier'', ''identifier''})
                                   (children child))
        else []) (children root))"
  "sk_classes (java_extract file_name root) =
     map (\<lambda>(idx, child). java_extract_class child (java_preceding_doc (children root) idx))
         (filter (\<lambda>(idx, child). ntype child \<in> {''class_declaration'', ''interface_declaration'',
                                                 ''enum_declaration''})
                 (enumerate 0 (children root)))"
  "sk_functions (java_extract file_name root) = []"
  "cls_methods (java_extract_class node docstring) =
     (case find (\<lambda>c. ntype c = ''class_body'') (rev (children node)) of
        None \<Rightarrow> []
      | Some body \<Rightarrow>
          map (\<lambda>(idx, child). java_extract_method child (java_preceding_doc (children body) idx))
              (filter (\<lambda>(idx, child). ntype child \<in> {''method_declaration'',
                                                      ''constructor_declaration''})
                      (enumerate 0 (children body))))"
proof -
  show "sk_imports (java_extract file_name root) =
     concat (map (\<lambda>child.
        if ntype child = ''import_declaration''
        then map node_text (filter (\<lambda>sub. ntype sub \<in> {''scoped_identifier'', ''identifier''})
                                   (children child))
        else []) (children root))"
    unfolding java_extract_lists(1) java_sibling_imports
    by (rule concat_map_snd_enumerate)
  show "sk_classes (java_extract file_name root) =
     map (\<lambda>(idx, child). java_extract_class child (java_preceding_doc (children root) idx))
         (filter (\<lambda>(idx, child). ntype child \<in> {''class_declaration'', ''interface_declaration'',
                                                 ''enum_declaration''})
                 (enumerate 0 (children root)))"
    unfolding java_extract_lists(2) java_sibling_classes concat_map_if ..
  show "sk_functions (java_extract file_name root) = []"
    by (simp add: java_extract_def Let_def split: prod.splits)
  show "cls_methods (java_extract_class node docstring) =
     (case find (\<lambda>c. ntype c = ''class_body'') (rev (children node)) of
        None \<Rightarrow> []
      | Some body \<Rightarrow>
          map (\<lambda>(idx, child). java_extract_method child (java_preceding_doc (children body) idx))
              (filter (\<lambda>(idx, child). ntype child \<in> {''method_declaration'',
                                                      ''constructor_declaration''})
                      (enumerate 0 (children body))))"
    unfolding java_class_methods java_class_body java_class_member_method concat_map_if ..
qed

subsection \<open>C and C++, node by node\<close>

lemma cpp_class_body:
  "snd (snd (fold cpp_class_child cs ([], [], None)))
     = find (\<lambda>c. ntype c = ''field_declaration_list'') (rev cs)"
proof -
  have "snd (snd (cpp_class_child x st))
          = (if ntype x = ''field_declaration_list'' then Some x else snd (snd st))" for x st
    by (cases st) (simp add: cpp_class_child_def)
  from last_child_of_type [of cpp_class_child "\<lambda>c. ntype c = ''field_declaration_list''",
         OF this]
  show ?thesis by (simp split: option.splits)
qed

lemma cpp_sibling_imports:
  "fst (cpp_sibling siblings p ([], [], [])) =
     (if ntype (snd p) = ''preproc_include''
      then map (\<lambda>sub. strip_chars (strip (node_text sub)) (dquote @ ''<>''))
               (filter (\<lambda>sub. ntype sub \<in> {''string_literal'', ''system_lib_string''})
                       (children (snd p)))
      else [])"
  by (cases p) (simp add: cpp_sibling_def fold_append_if split: prod.splits)

lemma cpp_namespace_member_lists:
  "fst (cpp_namespace_member inner p ([], [])) =
     (if (case p of (i2, s2) \<Rightarrow> ntype s2 \<in> {''class_specifier'', ''struct_specifier''})
      then [case p of (i2, s2) \<Rightarrow> cpp_extract_class s2 (cpp_preceding_doc inner i2)]
      else [])"
  "snd (cpp_namespace_member inner p ([], [])) =
     (if (case p of (i2, s2) \<Rightarrow> ntype s2 = ''function_definition'')
      then [case p of (i2, s2) \<Rightarrow> cpp_extract_function s2 (cpp_preceding_doc inner i2)]
      else [])"
  by (cases p; simp add: cpp_namespace_member_def)+

lemma cpp_namespace_child_lists:
  "fst (cpp_namespace_child sub ([], [])) =
     (if ntype sub = ''declaration_list''
      then map (\<lambda>(i2, s2). cpp_extract_class s2 (cpp_preceding_doc (children sub) i2))
               (filter (\<lambda>(i2, s2). ntype s2 \<in> {''class_specifier'', ''struct_specifier''})
                       (enumerate 0 (children sub)))
      else [])"
  "snd (cpp_namespace_child sub ([], [])) =
     (if ntype sub = ''declaration_list''
      then map (\<lambda>(i2, s2). cpp_extract_function s2 (cpp_preceding_doc (children sub) i2))
               (filter (\<lambda>(i2, s2). ntype s2 = ''function_definition'')
                       (enumerate 0 (children sub)))
      else [])"
  using fold_appends2 [of "cpp_namespace_member (children sub)" "enumerate 0 (children sub)"
          "([], [])", OF cpp_namespace_member_appends]
  by (simp_all add: cpp_namespace_child_def Let_def cpp_namespace_member_lists concat_map_if)

lemma cpp_sibling_classes:
  "fst (snd (cpp_sibling siblings p ([], [], []))) =
     (case p of (idx, child) \<Rightarrow>
        if ntype child \<in> {''class_specifier'', ''struct_specifier''}
        then [cpp_extract_class child (cpp_preceding_doc siblings idx)]
        else if ntype child = ''namespace_definition''
        then concat (map (\<lambda>sub. fst (cpp_namespace_child sub ([], []))) (children child))
        else [])"
proof -
  obtain idx child where p: "p = (idx, child)" by (cases p)
  show ?thesis
    unfolding p
    using fold_appends2 [of cpp_namespace_child "children child" "([], [])",
            OF cpp_namespace_child_appends]
    by (simp add: cpp_sibling_def split: prod.splits)
qed

lemma cpp_sibling_functions:
  "snd (snd (cpp_sibling siblings p ([], [], []))) =
     (case p of (idx, child) \<Rightarrow>
        if ntype child = ''function_definition''
        then [cpp_extract_function child (cpp_preceding_doc siblings idx)]
        else if ntype child = ''namespace_definition''
        then concat (map (\<lambda>sub. snd (cpp_namespace_child sub ([], []))) (children child))
        else [])"
proof -
  obtain idx child where p: "p = (idx, child)" by (cases p)
  show ?thesis
    unfolding p
    using fold_appends2 [of cpp_namespace_child "children child" "([], [])",
            OF cpp_namespace_child_appends]
    by (simp add: cpp_sibling_def split: prod.splits)
qed

lemma cpp_class_member_method:
  "cpp_class_member siblings p [] =
     (case p of (idx, child) \<Rightarrow>
        if ntype child = ''function_definition''
        then [cpp_extract_function child (cpp_preceding_doc siblings idx)]
        else if ntype child \<in> {''declaration'', ''field_declaration''}
        then (case cpp_member_declaration (children child) [] of
                (ret_type, name, params) \<Rightarrow>
                  if name \<noteq> []
                  then [\<lparr>fn_name = name, fn_params = params, fn_return_type = ret_type,
                         fn_docstring = cpp_preceding_doc siblings idx\<rparr>]
                  else [])
        else [])"
  by (cases p) (simp add: cpp_class_member_def split: prod.splits)

lemma cpp_lists_by_node:
  "sk_imports (cpp_extract file_name root) =
     concat (map (\<lambda>child.
        if ntype child = ''preproc_include''
        then map (\<lambda>sub. strip_chars (strip (node_text sub)) (dquote @ ''<>''))
                 (filter (\<lambda>sub. ntype sub \<in> {''string_literal'', ''system_lib_string''})
                         (children child))
        else []) (children root))"
  "sk_classes (cpp_extract file_name root) =
     concat (map (\<lambda>(idx, child).
        if ntype child \<in> {''class_specifier'', ''struct_specifier''}
        then [cpp_extract_class child (cpp_preceding_doc (children root) idx)]
        else if ntype child = ''namespace_definition''
        then concat (map (\<lambda>sub.
               if ntype sub = ''declaration_list''
               then map (\<lambda>(i2, s2). cpp_extract_class s2 (cpp_preceding_doc (children sub) i2))
                        (filter (\<lambda>(i2, s2). ntype s2 \<in> {''class_specifier'',
                                                          ''struct_specifier''})
                                (enumerate 0 (children sub)))
               else []) (children child))
        else []) (enumerate 0 (children root)))"
  "sk_functions (cpp_extract file_name root) =
     concat (map (\<lambda>(idx, child).
        if ntype child = ''function_definition''
        then [cpp_extract_function child (cpp_preceding_doc (children root) idx)]
        else if ntype child = ''namespace_definition''
        then concat (map (\<lambda>sub.
               if ntype sub = ''declaration_list''
               then map (\<lambda>(i2, s2). cpp_extract_function s2
                                       (cpp_preceding_doc (children sub) i2))
                        (filter (\<lambda>(i2, s2). ntype s2 = ''function_definition'')
                                (enumerate 0 (children sub)))
               else []) (children child))
        else []) (enumerate 0 (children root)))"
  "cls_methods (cpp_extract_class node docstring) =
     (case find (\<lambda>c. ntype c = ''field_declaration_list'') (rev (children node)) of
        None \<Rightarrow> []
      | Some body \<Rightarrow>
          concat (map (\<lambda>(idx, child).
             if ntype child = ''function_definition''
             then [cpp_extract_function child (cpp_preceding_doc (children body) idx)]
             else if ntype child \<in> {''declaration'', ''field_declaration''}
             then (case cpp_member_declaration (children child) [] of
                     (ret_type, name, params) \<Rightarrow>
                       if name \<noteq> []
                       then [\<lparr>fn_name = name, fn_params = params, fn_return_type = ret_type,
                              fn_docstring = cpp_preceding_doc (children body) idx\<rparr>]
                       else [])
             else []) (enumerate 0 (children body))))"
proof -
  show "sk_imports (cpp_extract file_name root) =
     concat (map (\<lambda>child.
        if ntype child = ''preproc_include''
        then map (\<lambda>sub. strip_chars (strip (node_text sub)) (dquote @ ''<>''))
                 (filter (\<lambda>sub. ntype sub \<in> {''string_literal'', ''system_lib_string''})
                         (children child))
        else []) (children root))"
    unfolding cpp_extract_lists(1) cpp_sibling_imports
    by (rule concat_map_snd_enumerate)
  show "sk_classes (cpp_extract file_name root) =
     concat (map (\<lambda>(idx, child).
        if ntype child \<in> {''class_specifier'', ''struct_specifier''}
        then [cpp_extract_class child (cpp_preceding_doc (children root) idx)]
        else if ntype child = ''namespace_definition''
        then concat (map (\<lambda>sub.
               if ntype sub = ''declaration_list''
               then map (\<lambda>(i2, s2). cpp_extract_class s2 (cpp_preceding_doc (children sub) i2))
                        (filter (\<lambda>(i2, s2). ntype s2 \<in> {''class_specifier'',
                                                          ''struct_specifier''})
                                (enumerate 0 (children sub)))
               else []) (children child))
        else []) (enumerate 0 (children root)))"
    unfolding cpp_extract_lists(2) cpp_sibling_classes cpp_namespace_child_lists ..
  show "sk_functions (cpp_extract file_name root) =
     concat (map (\<lambda>(idx, child).
        if ntype child = ''function_definition''
        then [cpp_extract_function child (cpp_preceding_doc (children root) idx)]
        else if ntype child = ''namespace_definition''
        then concat (map (\<lambda>sub.
               if ntype sub = ''declaration_list''
               then map (\<lambda>(i2, s2). cpp_extract_function s2
                                       (cpp_preceding_doc (children sub) i2))
                        (filter (\<lambda>(i2, s2). ntype s2 = ''function_definition'')
                                (enumerate 0 (children sub)))
               else []) (children child))
        else []) (enumerate 0 (children root)))"
    unfolding cpp_extract_lists(3) cpp_sibling_functions cpp_namespace_child_lists ..
  show "cls_methods (cpp_extract_class node docstring) =
     (case find (\<lambda>c. ntype c = ''field_declaration_list'') (rev (children node)) of
        None \<Rightarrow> []
      | Some body \<Rightarrow>
          concat (map (\<lambda>(idx, child).
             if ntype child = ''function_definition''
             then [cpp_extract_function child (cpp_preceding_doc (children body) idx)]
             else if ntype child \<in> {''declaration'', ''field_declaration''}
             then (case cpp_member_declaration (children child) [] of
                     (ret_type, name, params) \<Rightarrow>
                       if name \<noteq> []
                       then [\<lparr>fn_name = name, fn_params = params, fn_return_type = ret_type,
                              fn_docstring = cpp_preceding_doc (children body) idx\<rparr>]
                       else [])
             else []) (enumerate 0 (children body))))"
    unfolding cpp_class_methods cpp_class_body cpp_class_member_method ..
qed

end
